theory Spec2Isabelle
  imports Main "HOL-Library.Sublist"
begin

section \<open>JavaScript strings\<close>

text \<open>
  A JavaScript string is modelled as a \<^typ>\<open>string\<close>, one \<^typ>\<open>char\<close> per code unit;
  code units above 255 are outside the model. The helpers below are the string
  methods the configuration code calls.
\<close>

definition dquote :: char where
  "dquote = CHR 0x22"

definition backslash :: char where
  "backslash = CHR 0x5C"

definition newline :: char where
  "newline = CHR 0x0A"

text \<open>White space as \<open>String.prototype.trim\<close> sees it, within the modelled range:
  tab, line feed, vertical tab, form feed, carriage return, space and no-break space.\<close>

definition isWhiteSpace :: "char \<Rightarrow> bool" where
  "isWhiteSpace c \<longleftrightarrow>
     c = CHR 0x09 \<or> c = CHR 0x0A \<or> c = CHR 0x0B \<or> c = CHR 0x0C \<or>
     c = CHR 0x0D \<or> c = CHR 0x20 \<or> c = CHR 0xA0"

definition trimStart :: "string \<Rightarrow> string" where
  "trimStart s = dropWhile isWhiteSpace s"

definition trimEnd :: "string \<Rightarrow> string" where
  "trimEnd s = rev (dropWhile isWhiteSpace (rev s))"

definition trim :: "string \<Rightarrow> string" where
  "trim s = trimEnd (trimStart s)"

text \<open>\<open>s.startsWith(p)\<close> and \<open>s.endsWith(p)\<close>.\<close>

definition startsWith :: "string \<Rightarrow> string \<Rightarrow> bool" where
  "startsWith s p \<longleftrightarrow> take (length p) s = p"

definition endsWith :: "string \<Rightarrow> string \<Rightarrow> bool" where
  "endsWith s p \<longleftrightarrow> length p \<le> length s \<and> drop (length s - length p) s = p"

text \<open>\<open>s.split(c)\<close> for a one-character separator: never the empty list, and
  \<open>"".split(c)\<close> is \<open>[""]\<close>.\<close>

fun split :: "char \<Rightarrow> string \<Rightarrow> string list" where
  "split c [] = [[]]"
| "split c (x # xs) =
     (if x = c then [] # split c xs
      else (case split c xs of
              [] \<Rightarrow> [[x]]
            | w # ws \<Rightarrow> (x # w) # ws))"

text \<open>\<open>xs.join(sep)\<close>.\<close>

fun join :: "string \<Rightarrow> string list \<Rightarrow> string" where
  "join sep [] = []"
| "join sep [x] = x"
| "join sep (x # y # ys) = x @ sep @ join sep (y # ys)"

section \<open>Errors\<close>

text \<open>
  Every \<open>throw new Error(msg)\<close> of the source is the value \<open>Inl (Error msg)\<close>.
  \<open>TypeError\<close> is what the \<open>in\<close> operator raises on a value that is not an object.
  The external collaborators (resolver, checkout, file system, API) fail with
  values of the same type.
\<close>

datatype error = Error string | TypeError

definition thenE :: "error + 'a \<Rightarrow> ('a \<Rightarrow> error + 'b) \<Rightarrow> error + 'b" where
  "thenE m f = (case m of Inl e \<Rightarrow> Inl e | Inr x \<Rightarrow> f x)"

section \<open>Error messages\<close>

definition NAME_PROPERTY :: string where
  "NAME_PROPERTY = ''name''"

definition DISABLE_DEFAULT_QUERIES_PROPERTY :: string where
  "DISABLE_DEFAULT_QUERIES_PROPERTY = ''disable-default-queries''"

definition QUERIES_PROPERTY :: string where
  "QUERIES_PROPERTY = ''queries''"

definition QUERIES_USES_PROPERTY :: string where
  "QUERIES_USES_PROPERTY = ''uses''"

definition PATHS_IGNORE_PROPERTY :: string where
  "PATHS_IGNORE_PROPERTY = ''paths-ignore''"

definition PATHS_PROPERTY :: string where
  "PATHS_PROPERTY = ''paths''"

definition builtinSuites :: "string list" where
  "builtinSuites = [''security-extended'', ''security-and-quality'']"

text \<open>An undefined \<open>configFile\<close> (\<open>None\<close>) means the property came from the workflow.\<close>

definition getConfigFilePropertyError :: "string option \<Rightarrow> string \<Rightarrow> string \<Rightarrow> string" where
  "getConfigFilePropertyError configFile property err =
     (case configFile of
        None \<Rightarrow>
          ''The workflow property '' @ [dquote] @ property @ [dquote] @ '' is invalid: '' @ err
      | Some cf \<Rightarrow>
          ''The configuration file '' @ [dquote] @ cf @ [dquote] @ '' is invalid: property '' @
          [dquote] @ property @ [dquote] @ '' '' @ err)"

definition getNameInvalid :: "string \<Rightarrow> string" where
  "getNameInvalid configFile =
     getConfigFilePropertyError (Some configFile) NAME_PROPERTY ''must be a non-empty string''"

definition getDisableDefaultQueriesInvalid :: "string \<Rightarrow> string" where
  "getDisableDefaultQueriesInvalid configFile =
     getConfigFilePropertyError (Some configFile) DISABLE_DEFAULT_QUERIES_PROPERTY
       ''must be a boolean''"

definition getQueriesInvalid :: "string \<Rightarrow> string" where
  "getQueriesInvalid configFile =
     getConfigFilePropertyError (Some configFile) QUERIES_PROPERTY ''must be an array''"

definition getQueryUsesInvalid :: "string option \<Rightarrow> string option \<Rightarrow> string" where
  "getQueryUsesInvalid configFile queryUses =
     getConfigFilePropertyError configFile
       (QUERIES_PROPERTY @ ''.'' @ QUERIES_USES_PROPERTY)
       (''must be a built-in suite ('' @ join '' or '' builtinSuites @
        ''), a relative path, or be of the form '' @ [dquote] @
        ''owner/repo[/path]@ref'' @ [dquote] @
        (case queryUses of
           None \<Rightarrow> []
         | Some q \<Rightarrow> [newline] @ '' Found: '' @ q))"

definition getPathsIgnoreInvalid :: "string \<Rightarrow> string" where
  "getPathsIgnoreInvalid configFile =
     getConfigFilePropertyError (Some configFile) PATHS_IGNORE_PROPERTY
       ''must be an array of non-empty strings''"

definition getPathsInvalid :: "string \<Rightarrow> string" where
  "getPathsInvalid configFile =
     getConfigFilePropertyError (Some configFile) PATHS_PROPERTY
       ''must be an array of non-empty strings''"

definition getLocalPathOutsideOfRepository :: "string option \<Rightarrow> string \<Rightarrow> string" where
  "getLocalPathOutsideOfRepository configFile localPath =
     getConfigFilePropertyError configFile
       (QUERIES_PROPERTY @ ''.'' @ QUERIES_USES_PROPERTY)
       (''is invalid as the local path '' @ [dquote] @ localPath @ [dquote] @
        '' is outside of the repository'')"

definition getLocalPathDoesNotExist :: "string option \<Rightarrow> string \<Rightarrow> string" where
  "getLocalPathDoesNotExist configFile localPath =
     getConfigFilePropertyError configFile
       (QUERIES_PROPERTY @ ''.'' @ QUERIES_USES_PROPERTY)
       (''is invalid as the local path '' @ [dquote] @ localPath @ [dquote] @
        '' does not exist in the repository'')"

definition getConfigFileOutsideWorkspaceErrorMessage :: "string \<Rightarrow> string" where
  "getConfigFileOutsideWorkspaceErrorMessage configFile =
     ''The configuration file '' @ [dquote] @ configFile @ [dquote] @
     '' is outside of the workspace''"

definition getConfigFileDoesNotExistErrorMessage :: "string \<Rightarrow> string" where
  "getConfigFileDoesNotExistErrorMessage configFile =
     ''The configuration file '' @ [dquote] @ configFile @ [dquote] @ '' does not exist''"

definition getConfigFileRepoFormatInvalidMessage :: "string \<Rightarrow> string" where
  "getConfigFileRepoFormatInvalidMessage configFile =
     ''The configuration file '' @ [dquote] @ configFile @ [dquote] @
     '' is not a supported remote file reference.'' @
     '' Expected format <owner>/<repository>/<file-path>@<ref>''"

definition getConfigFileFormatInvalidMessage :: "string \<Rightarrow> string" where
  "getConfigFileFormatInvalidMessage configFile =
     ''The configuration file '' @ [dquote] @ configFile @ [dquote] @ '' could not be read''"

definition getConfigFileDirectoryGivenMessage :: "string \<Rightarrow> string" where
  "getConfigFileDirectoryGivenMessage configFile =
     ''The configuration file '' @ [dquote] @ configFile @ [dquote] @
     '' looks like a directory, not a file''"

definition getNoLanguagesError :: string where
  "getNoLanguagesError =
     ''Did not detect any languages to analyze. '' @
     ''Please update input in workflow or check that GitHub detects the correct languages in your repository.''"

definition getUnknownLanguagesError :: "string list \<Rightarrow> string" where
  "getUnknownLanguagesError languages =
     ''Did not recognise the following languages: '' @ join '', '' languages"

section \<open>Path filters\<close>

text \<open>
  \<open>pathStarsRegex = /.*(?:\*\*[^/].*|\*\*$|[^/]\*\*.*)/\<close>, used with \<open>match\<close>, is a
  search: the leading and trailing \<open>.*\<close> may match nothing, so the pattern is found
  exactly when some occurrence of \<open>**\<close> is followed by a character other than \<open>/\<close>
  (first alternative), ends the string (second), or is preceded by a character other
  than \<open>/\<close> (third). The first argument is the character before the position
  examined, \<open>None\<close> at the start of the string.
\<close>

fun pathStarsRegex :: "char option \<Rightarrow> string \<Rightarrow> bool" where
  "pathStarsRegex prev (a # b # rest) =
     (if a = CHR ''*'' \<and> b = CHR ''*'' \<and>
         ((case rest of [] \<Rightarrow> True | c # _ \<Rightarrow> c \<noteq> CHR ''/'') \<or>
          (case prev of None \<Rightarrow> False | Some p \<Rightarrow> p \<noteq> CHR ''/''))
      then True
      else pathStarsRegex (Some a) (b # rest))"
| "pathStarsRegex prev rest = False"

text \<open>\<open>filterPatternCharactersRegex = /.*[?+[\]!].*/\<close>: one of the five characters occurs.\<close>

definition filterPatternCharactersRegex :: "string \<Rightarrow> bool" where
  "filterPatternCharactersRegex s \<longleftrightarrow>
     (\<exists>c \<in> set s. c = CHR ''?'' \<or> c = CHR ''+'' \<or> c = CHR ''['' \<or> c = CHR '']'' \<or> c = CHR ''!'')"

text \<open>The loop \<open>while (newPath.charAt(0) === "/") newPath = newPath.substring(1)\<close>.\<close>

fun stripLeadingSlashes :: "string \<Rightarrow> string" where
  "stripLeadingSlashes [] = []"
| "stripLeadingSlashes (c # cs) =
     (if c = CHR ''/'' then stripLeadingSlashes cs else c # cs)"

text \<open>The two normalisation steps of \<open>validateAndSanitisePath\<close>, before its checks.\<close>

definition sanitisePath :: "string \<Rightarrow> string" where
  "sanitisePath originalPath =
     (let newPath = stripLeadingSlashes originalPath
      in if endsWith newPath ''/**'' then take (length newPath - 2) newPath else newPath)"

text \<open>
  \<open>validateAndSanitisePath\<close>. The logger only receives a warning (when
  \<open>filterPatternCharactersRegex\<close> matches) and does not change the result;
  \<open>validateAndSanitisePath_warning\<close> is the warning logged, if any.
\<close>

definition validateAndSanitisePath :: "string \<Rightarrow> string \<Rightarrow> string \<Rightarrow> error + string" where
  "validateAndSanitisePath originalPath propertyName configFile =
     (let newPath = sanitisePath originalPath
      in if newPath = [] then
           Inl (Error (getConfigFilePropertyError (Some configFile) propertyName
             ([dquote] @ originalPath @ [dquote] @ '' is not an invalid path. '' @
              ''It is not necessary to include it, and it is not allowed to exclude it.'')))
         else if pathStarsRegex None newPath then
           Inl (Error (getConfigFilePropertyError (Some configFile) propertyName
             ([dquote] @ originalPath @ [dquote] @ '' contains an invalid '' @
              [dquote] @ ''**'' @ [dquote] @ '' wildcard. '' @
              ''They must be immediately preceded and followed by a slash as in '' @
              [dquote] @ ''/**/'' @ [dquote] @ '', or come at the start or end.'')))
         else if backslash \<in> set newPath then
           Inl (Error (getConfigFilePropertyError (Some configFile) propertyName
             ([dquote] @ originalPath @ [dquote] @ '' contains an '' @
              [dquote] @ [backslash] @ [dquote] @
              '' character. These are not allowed in filters. '' @
              ''If running on windows we recommend using '' @
              [dquote] @ ''/'' @ [dquote] @ '' instead for path filters.'')))
         else Inr newPath)"

definition validateAndSanitisePath_warning :: "string \<Rightarrow> string \<Rightarrow> string \<Rightarrow> string option" where
  "validateAndSanitisePath_warning originalPath propertyName configFile =
     (let newPath = sanitisePath originalPath
      in if newPath \<noteq> [] \<and> \<not> pathStarsRegex None newPath \<and>
            filterPatternCharactersRegex newPath
         then Some (getConfigFilePropertyError (Some configFile) propertyName
                ([dquote] @ originalPath @ [dquote] @ '' contains an unsupported character. '' @
                 ''The filter pattern characters ?, +, [, ], ! are not supported and will be matched literally.''))
         else None)"

section \<open>Data model\<close>

text \<open>What \<open>codeQL.resolveQueries\<close> returns. Each JavaScript object is read only
  through its keys, so it is the list of its keys in enumeration order; \<open>byLanguage\<close>
  maps a language to the object whose keys are the query paths.\<close>

record ResolveQueriesOutput =
  byLanguage :: "(string \<times> string list) list"
  noDeclaredLanguage :: "string list"
  multipleDeclaredLanguages :: "string list"

record QueriesWithSearchPath =
  searchPath :: string
  queries' :: "string list"

record LanguageQueries =
  builtin :: "string list"
  custom :: "QueriesWithSearchPath list"

type_synonym Queries = "string \<rightharpoonup> LanguageQueries"

text \<open>A value produced by \<open>yaml.safeLoad\<close>; an object is the list of its entries.\<close>

datatype yaml =
    YUndefined
  | YNull
  | YBool bool
  | YNum int
  | YStr string
  | YArr "yaml list"
  | YObj "(string \<times> yaml) list"

record RepositoryNwo =
  owner :: string
  repo :: string

text \<open>\<open>Language\<close> is a string enum, so a language is the \<^typ>\<open>string\<close> of its value.
  \<open>GitHubVersion\<close> is only stored, never inspected: it is the type parameter.\<close>

record 'v Config =
  languages :: "string list"
  queries :: Queries
  pathsIgnore :: "string list"
  paths :: "string list"
  originalUserInput :: yaml
  tempDir :: string
  toolCacheDir :: string
  codeQLCmd :: string
  gitHubVersion :: 'v

text \<open>The three shapes of \<open>response.data\<close> that \<open>getRemoteConfig\<close> tells apart.\<close>

datatype ContentData = Content string | DirectoryListing | OtherData

text \<open>
  The collaborators outside this module, as the functions the code calls. Within one
  run a call with the same arguments gives the same answer. The logger and the API
  credentials are left out: they never change a result.
  \<^item> \<open>resolveQueries\<close>: \<open>codeQL.resolveQueries(toResolve, extraSearchPath)\<close>;
  \<^item> \<open>getPath\<close>: \<open>codeQL.getPath()\<close>;
  \<^item> \<open>checkoutExternalRepository\<close>: called with \<open>nwo\<close>, \<open>ref\<close> and \<open>tempDir\<close>;
  \<^item> \<open>path_join\<close>, \<open>path_resolve\<close>, \<open>path_dirname\<close>, \<open>path_sep\<close>: Node's \<open>path\<close> module;
  \<^item> \<open>existsSync\<close>, \<open>realpathSync\<close>, \<open>readFileSync\<close>: Node's \<open>fs\<close> module;
  \<^item> \<open>mkdirSync\<close>: \<open>fs.mkdirSync(dir, { recursive: true })\<close>, which returns or throws;
  \<^item> \<open>writeFileSync\<close>: whether \<open>fs.writeFileSync\<close> on this path returns or throws;
  \<^item> \<open>safeLoad\<close>: \<open>yaml.safeLoad\<close>;
  \<^item> \<open>listLanguages\<close>: the keys of the data of \<open>repos.listLanguages\<close>;
  \<^item> \<open>parseLanguage\<close>: from \<open>./languages\<close>, \<open>None\<close> for \<open>undefined\<close>;
  \<^item> \<open>getContent\<close>: \<open>repos.getContent\<close> with owner, repo, path and ref;
  \<^item> \<open>base64ToBinary\<close>: \<open>Buffer.from(s, "base64").toString("binary")\<close>.
\<close>

record Env =
  resolveQueries :: "string list \<Rightarrow> string option \<Rightarrow> error + ResolveQueriesOutput"
  getPath :: string
  checkoutExternalRepository :: "string \<Rightarrow> string \<Rightarrow> string \<Rightarrow> error + string"
  path_join :: "string \<Rightarrow> string \<Rightarrow> string"
  path_resolve :: "string \<Rightarrow> string \<Rightarrow> string"
  path_dirname :: "string \<Rightarrow> string"
  path_sep :: string
  existsSync :: "string \<Rightarrow> bool"
  realpathSync :: "string \<Rightarrow> error + string"
  readFileSync :: "string \<Rightarrow> error + string"
  mkdirSync :: "string \<Rightarrow> error + unit"
  writeFileSync :: "string \<Rightarrow> error + unit"
  safeLoad :: "string \<Rightarrow> error + yaml"
  listLanguages :: "RepositoryNwo \<Rightarrow> error + string list"
  parseLanguage :: "string \<Rightarrow> string option"
  getContent :: "string \<Rightarrow> string \<Rightarrow> string \<Rightarrow> string \<Rightarrow> error + ContentData"
  base64ToBinary :: "string \<Rightarrow> string"

text \<open>A \<open>for ... of\<close> loop whose body may throw: the first error ends it.\<close>

fun forE :: "('s \<Rightarrow> 'a \<Rightarrow> error + 's) \<Rightarrow> 's \<Rightarrow> 'a list \<Rightarrow> error + 's" where
  "forE f s [] = Inr s"
| "forE f s (x # xs) = thenE (f s x) (\<lambda>s'. forE f s' xs)"

section \<open>Query resolution\<close>

definition DISABLED_BUILTIN_QUERIES :: "string \<rightharpoonup> string list" where
  "DISABLED_BUILTIN_QUERIES =
     [''csharp'' \<mapsto>
        [''ql/src/Security Features/CWE-937/VulnerablePackage.ql'',
         ''ql/src/Security Features/CWE-451/MissingXFrameOptions.ql'']]"

definition queryIsDisabled :: "string \<Rightarrow> string \<Rightarrow> bool" where
  "queryIsDisabled language query =
     list_ex (\<lambda>disabledQuery. endsWith query disabledQuery)
       (case DISABLED_BUILTIN_QUERIES language of None \<Rightarrow> [] | Some ds \<Rightarrow> ds)"

definition validateQueries :: "ResolveQueriesOutput \<Rightarrow> error + unit" where
  "validateQueries resolvedQueries =
     (let noDeclaredLanguageQueries = noDeclaredLanguage resolvedQueries
      in if noDeclaredLanguageQueries \<noteq> [] then
           Inl (Error (''The following queries do not declare a language. '' @
                       ''Their qlpack.yml files are either missing or is invalid.'' @ [newline] @
                       join [newline] noDeclaredLanguageQueries))
         else
           let multipleDeclaredLanguagesQueries = multipleDeclaredLanguages resolvedQueries
           in if multipleDeclaredLanguagesQueries \<noteq> [] then
                Inl (Error (''The following queries declare multiple languages. '' @
                            ''Their qlpack.yml files are either missing or is invalid.'' @ [newline] @
                            join [newline] multipleDeclaredLanguagesQueries))
              else Inr ())"

text \<open>One round of the loop of \<open>runResolveQueries\<close> over the entries of \<open>byLanguage\<close>.\<close>

definition addResolved :: "string option \<Rightarrow> Queries \<Rightarrow> string \<times> string list \<Rightarrow> Queries" where
  "addResolved extraSearchPath resultMap entry =
     (let language = fst entry;
          queryPaths = snd entry;
          current = (case resultMap language of
                       None \<Rightarrow> \<lparr>builtin = [], custom = []\<rparr>
                     | Some lq \<Rightarrow> lq);
          qs = filter (\<lambda>q. \<not> queryIsDisabled language q) queryPaths
      in case extraSearchPath of
           Some sp \<Rightarrow>
             resultMap(language \<mapsto>
               current\<lparr>custom := custom current @ [\<lparr>searchPath = sp, queries' = qs\<rparr>]\<rparr>)
         | None \<Rightarrow>
             resultMap(language \<mapsto> current\<lparr>builtin := builtin current @ qs\<rparr>))"

definition runResolveQueries ::
  "Env \<Rightarrow> Queries \<Rightarrow> string list \<Rightarrow> string option \<Rightarrow> error + Queries" where
  "runResolveQueries env resultMap toResolve extraSearchPath =
     thenE (resolveQueries env toResolve extraSearchPath) (\<lambda>resolvedQueries.
     thenE (case extraSearchPath of
              None \<Rightarrow> Inr ()
            | Some _ \<Rightarrow> validateQueries resolvedQueries) (\<lambda>_.
     Inr (foldl (addResolved extraSearchPath) resultMap (byLanguage resolvedQueries))))"

definition addDefaultQueries :: "Env \<Rightarrow> string list \<Rightarrow> Queries \<Rightarrow> error + Queries" where
  "addDefaultQueries env langs resultMap =
     runResolveQueries env resultMap (map (\<lambda>l. l @ ''-code-scanning.qls'') langs) None"

definition addBuiltinSuiteQueries ::
  "Env \<Rightarrow> string list \<Rightarrow> Queries \<Rightarrow> string \<Rightarrow> string option \<Rightarrow> error + Queries" where
  "addBuiltinSuiteQueries env langs resultMap suiteName configFile =
     (if suiteName \<notin> set builtinSuites then
        Inl (Error (getQueryUsesInvalid configFile (Some suiteName)))
      else
        runResolveQueries env resultMap
          (map (\<lambda>l. l @ ''-'' @ suiteName @ ''.qls'') langs) None)"

definition addLocalQueries ::
  "Env \<Rightarrow> Queries \<Rightarrow> string \<Rightarrow> string \<Rightarrow> string option \<Rightarrow> error + Queries" where
  "addLocalQueries env resultMap localQueryPath checkoutPath configFile =
     (let absoluteQueryPath = path_join env checkoutPath localQueryPath
      in if \<not> existsSync env absoluteQueryPath then
           Inl (Error (getLocalPathDoesNotExist configFile localQueryPath))
         else
           thenE (realpathSync env absoluteQueryPath) (\<lambda>absoluteQueryPath.
           thenE (realpathSync env checkoutPath) (\<lambda>realCheckoutPath.
             if \<not> startsWith (absoluteQueryPath @ path_sep env)
                               (realCheckoutPath @ path_sep env) then
               Inl (Error (getLocalPathOutsideOfRepository configFile localQueryPath))
             else
               runResolveQueries env resultMap [absoluteQueryPath] (Some checkoutPath))))"

definition addRemoteQueries ::
  "Env \<Rightarrow> Queries \<Rightarrow> string \<Rightarrow> string \<Rightarrow> string option \<Rightarrow> error + Queries" where
  "addRemoteQueries env resultMap queryUses tmpDir configFile =
     (let tok = split (CHR ''@'') queryUses
      in if length tok \<noteq> 2 then
           Inl (Error (getQueryUsesInvalid configFile (Some queryUses)))
         else
           let ref = tok ! 1;
               tok = split (CHR ''/'') (tok ! 0)
           in if length tok < 2 then
                Inl (Error (getQueryUsesInvalid configFile (Some queryUses)))
              else if trim (tok ! 0) = [] \<or> trim (tok ! 1) = [] then
                Inl (Error (getQueryUsesInvalid configFile (Some queryUses)))
              else
                let nwo = tok ! 0 @ ''/'' @ tok ! 1
                in thenE (checkoutExternalRepository env nwo ref tmpDir) (\<lambda>checkoutPath.
                     let queryPath =
                           (if length tok > 2
                            then path_join env checkoutPath (join ''/'' (drop 2 tok))
                            else checkoutPath)
                     in runResolveQueries env resultMap [queryPath] (Some checkoutPath)))"

definition parseQueryUses ::
  "Env \<Rightarrow> string list \<Rightarrow> Queries \<Rightarrow> string \<Rightarrow> string \<Rightarrow> string \<Rightarrow> string option
     \<Rightarrow> error + Queries" where
  "parseQueryUses env langs resultMap queryUses tmpDir checkoutPath configFile =
     (let queryUses = trim queryUses
      in if queryUses = [] then
           Inl (Error (getQueryUsesInvalid configFile None))
         else if startsWith queryUses ''./'' then
           addLocalQueries env resultMap (drop 2 queryUses) checkoutPath configFile
         else if CHR ''/'' \<notin> set queryUses \<and> CHR ''@'' \<notin> set queryUses then
           addBuiltinSuiteQueries env langs resultMap queryUses configFile
         else
           addRemoteQueries env resultMap queryUses tmpDir configFile)"

section \<open>Languages\<close>

text \<open>The insertion-ordered \<open>Set\<close> of \<open>getLanguagesInRepo\<close>: a language name that
  \<open>parseLanguage\<close> knows is added unless it is already there.\<close>

definition addParsedLanguage :: "Env \<Rightarrow> string list \<Rightarrow> string \<Rightarrow> string list" where
  "addParsedLanguage env langs lang =
     (case parseLanguage env lang of
        None \<Rightarrow> langs
      | Some parsedLang \<Rightarrow> if parsedLang \<in> set langs then langs else langs @ [parsedLang])"

definition getLanguagesInRepo :: "Env \<Rightarrow> RepositoryNwo \<Rightarrow> error + string list" where
  "getLanguagesInRepo env repository =
     thenE (listLanguages env repository) (\<lambda>names.
       Inr (foldl (addParsedLanguage env) [] names))"

text \<open>One round of the loop of \<open>getLanguages\<close>; the state is
  \<open>(parsedLanguages, unknownLanguages)\<close>.\<close>

definition checkLanguage ::
  "Env \<Rightarrow> string list \<times> string list \<Rightarrow> string \<Rightarrow> string list \<times> string list" where
  "checkLanguage env st language =
     (case parseLanguage env language of
        None \<Rightarrow> (fst st, snd st @ [language])
      | Some parsedLanguage \<Rightarrow>
          if parsedLanguage \<notin> set (fst st) then (fst st @ [parsedLanguage], snd st) else st)"

text \<open>\<open>languagesInput || ""\<close>: an undefined input counts as the empty string.\<close>

definition languagesFromInput :: "string option \<Rightarrow> string list" where
  "languagesFromInput languagesInput =
     filter (\<lambda>x. length x > 0)
       (map trim (split (CHR '','') (case languagesInput of None \<Rightarrow> [] | Some s \<Rightarrow> s)))"

definition getLanguages :: "Env \<Rightarrow> string option \<Rightarrow> RepositoryNwo \<Rightarrow> error + string list" where
  "getLanguages env languagesInput repository =
     thenE (let langs = languagesFromInput languagesInput
            in if langs = [] then getLanguagesInRepo env repository else Inr langs) (\<lambda>langs.
       if langs = [] then Inl (Error getNoLanguagesError)
       else
         let st = foldl (checkLanguage env) ([], []) langs
         in if snd st \<noteq> [] then Inl (Error (getUnknownLanguagesError (snd st)))
            else Inr (fst st))"

section \<open>Queries from the workflow\<close>

definition addQueriesFromWorkflow ::
  "Env \<Rightarrow> string \<Rightarrow> string list \<Rightarrow> Queries \<Rightarrow> string \<Rightarrow> string \<Rightarrow> error + Queries" where
  "addQueriesFromWorkflow env queriesInput langs resultMap tmpDir checkoutPath =
     (let queriesInput = trim queriesInput;
          queriesInput = (if startsWith queriesInput ''+'' then drop 1 queriesInput
                          else queriesInput)
      in forE (\<lambda>rm query. parseQueryUses env langs rm query tmpDir checkoutPath None)
           resultMap (split (CHR '','') queriesInput))"


definition shouldAddConfigFileQueries :: "string option \<Rightarrow> bool" where
  "shouldAddConfigFileQueries queriesInput =
     (case queriesInput of
        None \<Rightarrow> True
      | Some q \<Rightarrow> if q \<noteq> [] then take 1 (trimStart q) = ''+'' else True)"

section \<open>The default configuration\<close>


section \<open>The configuration file\<close>

definition isLocal :: "string \<Rightarrow> bool" where
  "isLocal configPath =
     (if startsWith configPath ''./'' then True else CHR ''@'' \<notin> set configPath)"

definition getLocalConfig :: "Env \<Rightarrow> string \<Rightarrow> string \<Rightarrow> error + yaml" where
  "getLocalConfig env configFile checkoutPath =
     (if \<not> startsWith (configFile @ path_sep env) (checkoutPath @ path_sep env) then
        Inl (Error (getConfigFileOutsideWorkspaceErrorMessage configFile))
      else if \<not> existsSync env configFile then
        Inl (Error (getConfigFileDoesNotExistErrorMessage configFile))
      else
        thenE (readFileSync env configFile) (safeLoad env))"

text \<open>
  The pattern \<open>(?<owner>[^/]+)/(?<repo>[^/]+)/(?<path>[^@]+)@(?<ref>.*)\<close> of
  \<open>getRemoteConfig\<close>, matched at the start of the given string. Each of the first
  three groups is a run of characters that must stop exactly before its delimiter,
  so the greedy match is the only one; \<open>.\<close> stops at a line terminator.
\<close>

definition formatAt :: "string \<Rightarrow> (string \<times> string \<times> string \<times> string) option" where
  "formatAt s =
     (let ownr = takeWhile (\<lambda>c. c \<noteq> CHR ''/'') s;
          r1 = dropWhile (\<lambda>c. c \<noteq> CHR ''/'') s
      in if ownr = [] \<or> r1 = [] then None
         else
           let rpo = takeWhile (\<lambda>c. c \<noteq> CHR ''/'') (tl r1);
               r2 = dropWhile (\<lambda>c. c \<noteq> CHR ''/'') (tl r1)
           in if rpo = [] \<or> r2 = [] then None
              else
                let pth = takeWhile (\<lambda>c. c \<noteq> CHR ''@'') (tl r2);
                    r3 = dropWhile (\<lambda>c. c \<noteq> CHR ''@'') (tl r2)
                in if pth = [] \<or> r3 = [] then None
                   else Some (ownr, rpo, pth,
                          takeWhile (\<lambda>c. c \<noteq> CHR 0x0A \<and> c \<noteq> CHR 0x0D) (tl r3)))"

text \<open>\<open>format.exec(configFile)\<close>: the first position at which the pattern matches.\<close>

fun formatExec :: "string \<Rightarrow> (string \<times> string \<times> string \<times> string) option" where
  "formatExec [] = None"
| "formatExec (c # cs) =
     (case formatAt (c # cs) of
        Some pieces \<Rightarrow> Some pieces
      | None \<Rightarrow> formatExec cs)"

definition getRemoteConfig :: "Env \<Rightarrow> string \<Rightarrow> error + yaml" where
  "getRemoteConfig env configFile =
     (case formatExec configFile of
        None \<Rightarrow> Inl (Error (getConfigFileRepoFormatInvalidMessage configFile))
      | Some (ownr, rpo, pth, ref) \<Rightarrow>
          thenE (getContent env ownr rpo pth ref) (\<lambda>data.
            case data of
              Content fileContents \<Rightarrow> safeLoad env (base64ToBinary env fileContents)
            | DirectoryListing \<Rightarrow> Inl (Error (getConfigFileDirectoryGivenMessage configFile))
            | OtherData \<Rightarrow> Inl (Error (getConfigFileFormatInvalidMessage configFile))))"

text \<open>
  \<open>key in v\<close>: a \<open>TypeError\<close> unless \<open>v\<close> is an object. None of the property names
  asked for is an index or \<open>length\<close>, so an array has none of them.
  \<open>v[key]\<close> is read only after \<open>key in v\<close> held.
\<close>

fun js_in :: "string \<Rightarrow> yaml \<Rightarrow> error + bool" where
  "js_in key (YObj kvs) = Inr (key \<in> set (map fst kvs))"
| "js_in key (YArr xs) = Inr False"
| "js_in key v = Inl TypeError"

fun js_get :: "yaml \<Rightarrow> string \<Rightarrow> yaml" where
  "js_get (YObj kvs) key = (case map_of kvs key of None \<Rightarrow> YUndefined | Some v \<Rightarrow> v)"
| "js_get v key = YUndefined"

text \<open>The body of the loop over \<open>parsedYAML.queries\<close>.\<close>

definition addConfigFileQuery ::
  "Env \<Rightarrow> string list \<Rightarrow> string \<Rightarrow> string \<Rightarrow> string \<Rightarrow> Queries \<Rightarrow> yaml \<Rightarrow> error + Queries" where
  "addConfigFileQuery env langs tmpDir checkoutPath configFile qs query =
     thenE (js_in QUERIES_USES_PROPERTY query) (\<lambda>hasUses.
       case (hasUses, js_get query QUERIES_USES_PROPERTY) of
         (True, YStr uses) \<Rightarrow>
           parseQueryUses env langs qs uses tmpDir checkoutPath (Some configFile)
       | _ \<Rightarrow> Inl (Error (getQueryUsesInvalid (Some configFile) None)))"

text \<open>The body of the loops over \<open>paths-ignore\<close> and \<open>paths\<close>; \<open>invalid\<close> is the message
  for an entry that is not a non-empty string.\<close>

definition addPath :: "string \<Rightarrow> string \<Rightarrow> string \<Rightarrow> string list \<Rightarrow> yaml \<Rightarrow> error + string list" where
  "addPath propertyName configFile invalid acc entry =
     (case entry of
        YStr p \<Rightarrow>
          if p = [] then Inl (Error invalid)
          else thenE (validateAndSanitisePath p propertyName configFile) (\<lambda>np. Inr (acc @ [np]))
      | _ \<Rightarrow> Inl (Error invalid))"

definition loadPaths :: "yaml \<Rightarrow> string \<Rightarrow> string \<Rightarrow> string \<Rightarrow> error + string list" where
  "loadPaths parsedYAML propertyName configFile invalid =
     thenE (js_in propertyName parsedYAML) (\<lambda>present.
       if present then
         (case js_get parsedYAML propertyName of
            YArr entries \<Rightarrow> forE (addPath propertyName configFile invalid) [] entries
          | _ \<Rightarrow> Inl (Error invalid))
       else Inr [])"

text \<open>The final loop of \<open>loadConfig\<close>: no language may be left without queries.\<close>

definition checkLanguageQueries :: "Queries \<Rightarrow> unit \<Rightarrow> string \<Rightarrow> error + unit" where
  "checkLanguageQueries qs u language =
     (if (case qs language of
            None \<Rightarrow> True
          | Some lq \<Rightarrow> length (builtin lq) = 0 \<and> length (custom lq) = 0)
      then Inl (Error (''Did not detect any queries to run for '' @ language @ ''. '' @
                       ''Please make sure that the default queries are enabled, or you are specifying queries to run.''))
      else Inr ())"

text \<open>\<open>loadConfig\<close> from the point where the file has been read: \<open>configFile\<close> is the
  resolved path for a local file and the reference as given for a remote one.\<close>

definition loadConfigParsed ::
  "Env \<Rightarrow> string option \<Rightarrow> string option \<Rightarrow> string \<Rightarrow> yaml \<Rightarrow> RepositoryNwo \<Rightarrow> string
     \<Rightarrow> string \<Rightarrow> string \<Rightarrow> 'v \<Rightarrow> error + 'v Config" where
  "loadConfigParsed env languagesInput queriesInput configFile parsedYAML repository tmpDir
       toolCache checkoutPath ghVersion =
     thenE (js_in NAME_PROPERTY parsedYAML) (\<lambda>hasName.
     thenE (if hasName then
              (case js_get parsedYAML NAME_PROPERTY of
                 YStr n \<Rightarrow> if length n = 0 then Inl (Error (getNameInvalid configFile))
                           else Inr ()
               | _ \<Rightarrow> Inl (Error (getNameInvalid configFile)))
            else Inr ()) (\<lambda>_.
     thenE (getLanguages env languagesInput repository) (\<lambda>langs.
     thenE (js_in DISABLE_DEFAULT_QUERIES_PROPERTY parsedYAML) (\<lambda>hasDisable.
     thenE (if hasDisable then
              (case js_get parsedYAML DISABLE_DEFAULT_QUERIES_PROPERTY of
                 YBool b \<Rightarrow> Inr b
               | _ \<Rightarrow> Inl (Error (getDisableDefaultQueriesInvalid configFile)))
            else Inr False) (\<lambda>disableDefaultQueries.
     thenE (if \<not> disableDefaultQueries then addDefaultQueries env langs Map.empty
            else Inr Map.empty) (\<lambda>qs.
     thenE (case queriesInput of
              None \<Rightarrow> Inr qs
            | Some q \<Rightarrow>
                if q \<noteq> [] then addQueriesFromWorkflow env q langs qs tmpDir checkoutPath
                else Inr qs) (\<lambda>qs.
     thenE (if shouldAddConfigFileQueries queriesInput then
              thenE (js_in QUERIES_PROPERTY parsedYAML) (\<lambda>hasQueries.
                if hasQueries then
                  (case js_get parsedYAML QUERIES_PROPERTY of
                     YArr entries \<Rightarrow>
                       forE (addConfigFileQuery env langs tmpDir checkoutPath configFile)
                         qs entries
                   | _ \<Rightarrow> Inl (Error (getQueriesInvalid configFile)))
                else Inr qs)
            else Inr qs) (\<lambda>qs.
     thenE (loadPaths parsedYAML PATHS_IGNORE_PROPERTY configFile
              (getPathsIgnoreInvalid configFile)) (\<lambda>ignored.
     thenE (loadPaths parsedYAML PATHS_PROPERTY configFile
              (getPathsInvalid configFile)) (\<lambda>included.
     thenE (forE (checkLanguageQueries qs) () langs) (\<lambda>_.
     Inr \<lparr>languages = langs, queries = qs, pathsIgnore = ignored, paths = included,
          originalUserInput = parsedYAML, tempDir = tmpDir, toolCacheDir = toolCache,
          codeQLCmd = getPath env, gitHubVersion = ghVersion\<rparr>)))))))))))"

definition loadConfig ::
  "Env \<Rightarrow> string option \<Rightarrow> string option \<Rightarrow> string \<Rightarrow> RepositoryNwo \<Rightarrow> string \<Rightarrow> string
     \<Rightarrow> string \<Rightarrow> 'v \<Rightarrow> error + 'v Config" where
  "loadConfig env languagesInput queriesInput configFile repository tmpDir toolCache
       checkoutPath ghVersion =
     (if isLocal configFile then
        let configFile = path_resolve env checkoutPath configFile
        in thenE (getLocalConfig env configFile checkoutPath) (\<lambda>parsedYAML.
             loadConfigParsed env languagesInput queriesInput configFile parsedYAML repository
               tmpDir toolCache checkoutPath ghVersion)
      else
        thenE (getRemoteConfig env configFile) (\<lambda>parsedYAML.
          loadConfigParsed env languagesInput queriesInput configFile parsedYAML repository
            tmpDir toolCache checkoutPath ghVersion))"

section \<open>Storing the configuration\<close>





section \<open>An example environment\<close>

text \<open>
  A small concrete world on which the definitions above can be run: Node's \<open>path\<close>
  functions on POSIX, a checkout at \<open>/repo\<close> that holds a configuration file, a
  second one that disables the default queries, a third one that disables them and
  names the local queries, a query directory and the symbolic
  link \<open>/repo/link.yml\<close> to \<open>/secret/config.yml\<close>, and a resolver that finds one
  JavaScript query for each input.
\<close>

text \<open>\<open>normalizeString\<close> of Node's \<open>path\<close>, on the segments between slashes: empty
  segments and \<open>.\<close> vanish, \<open>..\<close> removes the segment before it and is kept only in a
  relative path that has none left.\<close>

fun normalizeSegments :: "bool \<Rightarrow> string list \<Rightarrow> string list \<Rightarrow> string list" where
  "normalizeSegments aboveRoot acc [] = rev acc"
| "normalizeSegments aboveRoot acc (seg # segs) =
     (if seg = [] \<or> seg = ''.'' then normalizeSegments aboveRoot acc segs
      else if seg = ''..'' then
        (case acc of
           [] \<Rightarrow> normalizeSegments aboveRoot (if aboveRoot then [seg] else []) segs
         | lst # acc' \<Rightarrow>
             if lst = ''..'' then normalizeSegments aboveRoot (seg # acc) segs
             else normalizeSegments aboveRoot acc' segs)
      else normalizeSegments aboveRoot (seg # acc) segs)"

definition posix_normalize :: "string \<Rightarrow> string" where
  "posix_normalize p =
     (if p = [] then ''.''
      else
        let isAbsolute = (hd p = CHR ''/'');
            trailingSeparator = (last p = CHR ''/'');
            body = join ''/'' (normalizeSegments (\<not> isAbsolute) [] (split (CHR ''/'') p))
        in if body = [] then (if isAbsolute then ''/'' else if trailingSeparator then ''./'' else ''.'')
           else (if isAbsolute then ''/'' else []) @ body @ (if trailingSeparator then ''/'' else []))"

definition posix_join :: "string \<Rightarrow> string \<Rightarrow> string" where
  "posix_join a b =
     (if a = [] \<and> b = [] then ''.''
      else if a = [] then posix_normalize b
      else if b = [] then posix_normalize a
      else posix_normalize (a @ ''/'' @ b))"

definition posix_resolve :: "string \<Rightarrow> string \<Rightarrow> string \<Rightarrow> string" where
  "posix_resolve cwd a b =
     (let chain =
            (if b \<noteq> [] \<and> hd b = CHR ''/'' then b
             else if a \<noteq> [] \<and> hd a = CHR ''/'' then a @ ''/'' @ b
             else cwd @ ''/'' @ a @ ''/'' @ b)
      in ''/'' @ join ''/'' (normalizeSegments False [] (split (CHR ''/'') chain)))"


text \<open>\<open>path.dirname\<close> on an absolute, normalised path that does not end with a slash:
  the part before the last slash, and \<open>/\<close> when nothing is before it.\<close>

definition posix_dirname :: "string \<Rightarrow> string" where
  "posix_dirname p =
     (let dir = rev (tl (dropWhile (\<lambda>c. c \<noteq> CHR ''/'') (rev p)))
      in if dir = [] then ''/'' else dir)"

definition demo_files :: "string list" where
  "demo_files =
     [''/repo'', ''/repo/codeql-config.yml'', ''/repo/no-defaults.yml'',
      ''/repo/custom-only.yml'', ''/repo/queries'', ''/repo/link.yml'', ''/outside'',
      ''/secret/config.yml'']"

definition demo_realpath :: "string \<Rightarrow> error + string" where
  "demo_realpath p =
     (if p = ''/repo/link.yml'' then Inr ''/secret/config.yml''
      else if p \<in> set demo_files then Inr p
      else Inl (Error ''ENOENT: no such file or directory''))"

definition demo_readFile :: "string \<Rightarrow> error + string" where
  "demo_readFile p =
     thenE (demo_realpath p) (\<lambda>real.
       if real = ''/repo/codeql-config.yml'' then Inr ''queries: [{uses: security-and-quality}]''
       else if real = ''/repo/no-defaults.yml'' then Inr ''disable-default-queries: true''
       else if real = ''/repo/custom-only.yml'' then
         Inr ''{disable-default-queries: true, queries: [{uses: ./queries}]}''
       else if real = ''/secret/config.yml'' then Inr ''name: secret''
       else Inl (Error ''EISDIR: illegal operation on a directory''))"

definition demo_safeLoad :: "string \<Rightarrow> error + yaml" where
  "demo_safeLoad text =
     (if text = ''queries: [{uses: security-and-quality}]'' then
        Inr (YObj [(''queries'', YArr [YObj [(''uses'', YStr ''security-and-quality'')]])])
      else if text = ''disable-default-queries: true'' then
        Inr (YObj [(''disable-default-queries'', YBool True)])
      else if text = ''{disable-default-queries: true, queries: [{uses: ./queries}]}'' then
        Inr (YObj [(''disable-default-queries'', YBool True),
                   (''queries'', YArr [YObj [(''uses'', YStr ''./queries'')]])])
      else if text = ''name: secret'' then Inr (YObj [(''name'', YStr ''secret'')])
      else Inl (Error ''YAMLException''))"

definition demo_parseLanguage :: "string \<Rightarrow> string option" where
  "demo_parseLanguage name =
     (if name = ''javascript'' \<or> name = ''JavaScript'' \<or> name = ''typescript''
      then Some ''javascript''
      else if name = ''python'' \<or> name = ''Python'' then Some ''python''
      else if name = ''csharp'' \<or> name = ''C#'' then Some ''csharp''
      else None)"

definition demo_resolve :: "string list \<Rightarrow> string option \<Rightarrow> error + ResolveQueriesOutput" where
  "demo_resolve toResolve extraSearchPath =
     Inr \<lparr>byLanguage = [(''javascript'', map (\<lambda>r. r @ ''/query.ql'') toResolve)],
          noDeclaredLanguage = [], multipleDeclaredLanguages = []\<rparr>"

definition demo_env :: Env where
  "demo_env =
     \<lparr>resolveQueries = demo_resolve,
      getPath = ''/opt/codeql/codeql'',
      checkoutExternalRepository = (\<lambda>nwo ref tmpDir. Inr (tmpDir @ ''/'' @ nwo)),
      path_join = posix_join,
      path_resolve = posix_resolve ''/home/runner'',
      path_dirname = posix_dirname,
      path_sep = ''/'',
      existsSync = (\<lambda>p. p \<in> set demo_files),
      realpathSync = demo_realpath,
      readFileSync = demo_readFile,
      mkdirSync = (\<lambda>dir. Inr ()),
      writeFileSync = (\<lambda>p. Inr ()),
      safeLoad = demo_safeLoad,
      listLanguages = (\<lambda>repository. Inr [''JavaScript'', ''HTML'']),
      parseLanguage = demo_parseLanguage,
      getContent = (\<lambda>ownr rpo pth ref. Inr DirectoryListing),
      base64ToBinary = (\<lambda>s. s)\<rparr>"

text \<open>Further inhabitants of the example world: a resolver with a fixed answer, four
  such answers (the last one holds a single C# query, which is on the list of disabled
  queries), the repository, the parsed configuration files and the configurations
  that \<open>loadConfig\<close> and \<open>getDefaultConfig\<close> produce there.\<close>

definition fixed_resolve ::
  "ResolveQueriesOutput \<Rightarrow> string list \<Rightarrow> string option \<Rightarrow> error + ResolveQueriesOutput" where
  "fixed_resolve output toResolve extraSearchPath = Inr output"


definition undeclared_and_ambiguous :: ResolveQueriesOutput where
  "undeclared_and_ambiguous =
     \<lparr>byLanguage = [(''javascript'', [''/repo/queries/ok.ql''])],
      noDeclaredLanguage = [''/repo/queries/none.ql''],
      multipleDeclaredLanguages = [''/repo/queries/both.ql'']\<rparr>"

definition only_ambiguous :: ResolveQueriesOutput where
  "only_ambiguous =
     \<lparr>byLanguage = [(''javascript'', [''/repo/queries/ok.ql''])],
      noDeclaredLanguage = [],
      multipleDeclaredLanguages = [''/repo/queries/both.ql'']\<rparr>"

definition demo_repository :: RepositoryNwo where
  "demo_repository = \<lparr>owner = ''octo'', repo = ''app''\<rparr>"

definition demo_config :: yaml where
  "demo_config = YObj [(''queries'', YArr [YObj [(''uses'', YStr ''security-and-quality'')]])]"

definition demo_result_plus :: "unit Config" where
  "demo_result_plus =
     \<lparr>languages = [''javascript''],
      queries = [''javascript'' \<mapsto>
        \<lparr>builtin = [''javascript-code-scanning.qls/query.ql'',
                    ''javascript-security-extended.qls/query.ql'',
                    ''javascript-security-and-quality.qls/query.ql''], custom = []\<rparr>],
      pathsIgnore = [], paths = [], originalUserInput = demo_config, tempDir = ''/tmp'',
      toolCacheDir = ''/cache'', codeQLCmd = ''/opt/codeql/codeql'', gitHubVersion = ()\<rparr>"

definition demo_result_plain :: "unit Config" where
  "demo_result_plain =
     \<lparr>languages = [''javascript''],
      queries = [''javascript'' \<mapsto>
        \<lparr>builtin = [''javascript-code-scanning.qls/query.ql'',
                    ''javascript-security-extended.qls/query.ql''], custom = []\<rparr>],
      pathsIgnore = [], paths = [], originalUserInput = demo_config, tempDir = ''/tmp'',
      toolCacheDir = ''/cache'', codeQLCmd = ''/opt/codeql/codeql'', gitHubVersion = ()\<rparr>"






section \<open>Notions used to state the properties\<close>

text \<open>Removing duplicates while keeping the order of first occurrence.\<close>

fun firstSeen :: "'a list \<Rightarrow> 'a list" where
  "firstSeen [] = []"
| "firstSeen (x # xs) = x # firstSeen (filter (\<lambda>y. y \<noteq> x) xs)"

text \<open>\<open>extends q q'\<close>: every language of \<open>q\<close> is still in \<open>q'\<close>, and its builtin queries and
  its custom groups there begin with those it has in \<open>q\<close>. Nothing was removed or
  reordered; queries were only appended.\<close>

definition extends :: "Queries \<Rightarrow> Queries \<Rightarrow> bool" where
  "extends q q' \<longleftrightarrow>
     (\<forall>language.
        case q language of
          None \<Rightarrow> True
        | Some lq \<Rightarrow>
            (case q' language of
               None \<Rightarrow> False
             | Some lq' \<Rightarrow> prefix (builtin lq) (builtin lq') \<and> prefix (custom lq) (custom lq')))"

text \<open>The run-parameter queries are absent (undefined or empty) or, once leading white
  space is trimmed, start with \<open>+\<close>.\<close>

definition additive :: "string option \<Rightarrow> bool" where
  "additive queriesInput =
     (case queriesInput of None \<Rightarrow> True | Some r \<Rightarrow> r = [] \<or> prefix ''+'' (trimStart r))"

text \<open>A language has queries: an entry with a builtin query or a custom group.\<close>

definition hasQueries :: "Queries \<Rightarrow> string \<Rightarrow> bool" where
  "hasQueries qs language =
     (case qs language of None \<Rightarrow> False | Some lq \<Rightarrow> builtin lq \<noteq> [] \<or> custom lq \<noteq> [])"

text \<open>The error of the final loop of \<open>loadConfig\<close>.\<close>

definition noQueriesError :: "string \<Rightarrow> error" where
  "noQueriesError language =
     Error (''Did not detect any queries to run for '' @ language @ ''. '' @
            ''Please make sure that the default queries are enabled, or you are specifying queries to run.'')"


section \<open>Basic facts\<close>

lemma thenE_simps [simp]:
  "thenE (Inl e) f = Inl e"
  "thenE (Inr x) f = f x"
  by (simp_all add: thenE_def)

lemma thenE_Inr: "thenE m f = Inr r \<longleftrightarrow> (\<exists>x. m = Inr x \<and> f x = Inr r)"
  by (cases m) simp_all



lemma endsWith_suffix: "endsWith s p \<longleftrightarrow> suffix p s"
  unfolding endsWith_def
  by (metis suffix_drop suffix_length_le suffix_take append_take_drop_id append_eq_conv_conj)

lemma startsWith_prefix: "startsWith s p \<longleftrightarrow> prefix p s"
  unfolding startsWith_def
  by (metis append_eq_conv_conj prefix_def take_is_prefix)

lemma join_sublist: "x \<in> set xs \<Longrightarrow> sublist x (join sep xs)"
proof (induction sep xs rule: join.induct)
  case (3 sep a b ys)
  show ?case
  proof (cases "x = a")
    case True
    then show ?thesis by (simp add: sublist_append_rightI)
  next
    case False
    with 3 have "sublist x (join sep (b # ys))" by simp
    moreover have "sublist (join sep (b # ys)) (a @ sep @ join sep (b # ys))"
      by (metis append_assoc sublist_append_leftI)
    ultimately show ?thesis by (auto intro: sublist_order.order.trans)
  qed
qed simp_all

lemma split_not_Nil [simp]: "split c s \<noteq> []"
  by (induction s) (auto split: list.splits)

lemma length_split: "length (split c s) = Suc (count_list s c)"
  by (induction s) (auto split: list.splits)

lemma split_no_sep: "c \<notin> set s \<Longrightarrow> split c s = [s]"
  by (induction s) auto

lemma split_append: "c \<notin> set a \<Longrightarrow> split c (a @ c # b) = a # split c b"
  by (induction a) auto

lemma split_join:
  "xs \<noteq> [] \<Longrightarrow> \<forall>x \<in> set xs. c \<notin> set x \<Longrightarrow> split c (join [c] xs) = xs"
proof (induction "[c]" xs rule: join.induct)
  case 1
  then show ?case by simp
next
  case (2 x)
  then show ?case by (simp add: split_no_sep)
next
  case (3 x y ys)
  then show ?case by (simp add: split_append)
qed

lemma split_two: "c \<notin> set a \<Longrightarrow> c \<notin> set b \<Longrightarrow> split c (a @ [c] @ b) = [a, b]"
  by (simp add: split_append split_no_sep)

lemma join_slash_no_at:
  "\<forall>seg \<in> set segs. CHR ''@'' \<notin> set seg \<Longrightarrow> CHR ''@'' \<notin> set (join ''/'' segs)"
  by (induction "''/''" segs rule: join.induct) auto

section \<open>Running the example\<close>

lemma demo_queryIsDisabled [simp]: "queryIsDisabled ''javascript'' q = False"
  by (simp add: queryIsDisabled_def DISABLED_BUILTIN_QUERIES_def)

lemma demo_trim [simp]:
  "trim ''javascript'' = ''javascript''"
  "trim ''security-extended'' = ''security-extended''"
  "trim ''security-and-quality'' = ''security-and-quality''"
  "trim '' +security-extended'' = ''+security-extended''"
  by (simp_all add: trim_def trimStart_def trimEnd_def isWhiteSpace_def)

lemma demo_getLanguages:
  "getLanguages demo_env (Some ''javascript'') demo_repository = Inr [''javascript'']"
  by (simp add: getLanguages_def languagesFromInput_def checkLanguage_def demo_env_def
      demo_parseLanguage_def)

lemma demo_addDefaultQueries:
  "addDefaultQueries demo_env [''javascript''] Map.empty =
     Inr [''javascript'' \<mapsto>
            \<lparr>builtin = [''javascript-code-scanning.qls/query.ql''], custom = []\<rparr>]"
  by (simp add: addDefaultQueries_def runResolveQueries_def demo_env_def demo_resolve_def
      addResolved_def)

lemma demo_suite:
  "suite \<in> set builtinSuites \<Longrightarrow> trim suite = suite \<Longrightarrow>
   parseQueryUses demo_env [''javascript'']
     [''javascript'' \<mapsto> \<lparr>builtin = bs, custom = []\<rparr>] suite tmp co cf =
     Inr [''javascript'' \<mapsto>
            \<lparr>builtin = bs @ [''javascript-'' @ suite @ ''.qls/query.ql''], custom = []\<rparr>]"
  by (auto simp: parseQueryUses_def addBuiltinSuiteQueries_def runResolveQueries_def
      demo_env_def demo_resolve_def addResolved_def builtinSuites_def startsWith_def)

lemma demo_addQueriesFromWorkflow_plus:
  "addQueriesFromWorkflow demo_env '' +security-extended'' [''javascript'']
     [''javascript'' \<mapsto> \<lparr>builtin = bs, custom = []\<rparr>] tmp co =
     Inr [''javascript'' \<mapsto>
            \<lparr>builtin = bs @ [''javascript-security-extended.qls/query.ql''], custom = []\<rparr>]"
  by (simp add: addQueriesFromWorkflow_def startsWith_def demo_suite builtinSuites_def)

lemma demo_addQueriesFromWorkflow_plain:
  "addQueriesFromWorkflow demo_env ''security-extended'' [''javascript'']
     [''javascript'' \<mapsto> \<lparr>builtin = bs, custom = []\<rparr>] tmp co =
     Inr [''javascript'' \<mapsto>
            \<lparr>builtin = bs @ [''javascript-security-extended.qls/query.ql''], custom = []\<rparr>]"
  by (simp add: addQueriesFromWorkflow_def startsWith_def demo_suite builtinSuites_def)

lemma demo_addConfigFileQuery:
  "addConfigFileQuery demo_env [''javascript''] tmp co cf
     [''javascript'' \<mapsto> \<lparr>builtin = bs, custom = []\<rparr>]
     (YObj [(''uses'', YStr ''security-and-quality'')]) =
     Inr [''javascript'' \<mapsto>
            \<lparr>builtin = bs @ [''javascript-security-and-quality.qls/query.ql''], custom = []\<rparr>]"
  by (simp add: addConfigFileQuery_def QUERIES_USES_PROPERTY_def demo_suite builtinSuites_def)

lemma demo_shouldAdd:
  "shouldAddConfigFileQueries (Some '' +security-extended'')"
  "\<not> shouldAddConfigFileQueries (Some ''security-extended'')"
  by (simp_all add: shouldAddConfigFileQueries_def trimStart_def isWhiteSpace_def)

lemma demo_loadPaths:
  "loadPaths demo_config PATHS_IGNORE_PROPERTY cf m = Inr []"
  "loadPaths demo_config PATHS_PROPERTY cf m = Inr []"
  by (simp_all add: loadPaths_def demo_config_def PATHS_IGNORE_PROPERTY_def PATHS_PROPERTY_def)

lemma demo_loadConfigParsed_plus:
  "loadConfigParsed demo_env (Some ''javascript'') (Some '' +security-extended'') cf demo_config
     demo_repository tmp tc co gv =
     Inr \<lparr>languages = [''javascript''],
          queries = [''javascript'' \<mapsto>
            \<lparr>builtin = [''javascript-code-scanning.qls/query.ql'',
                        ''javascript-security-extended.qls/query.ql'',
                        ''javascript-security-and-quality.qls/query.ql''], custom = []\<rparr>],
          pathsIgnore = [], paths = [], originalUserInput = demo_config, tempDir = tmp,
          toolCacheDir = tc, codeQLCmd = ''/opt/codeql/codeql'', gitHubVersion = gv\<rparr>"
proof -
  have in_config:
    "js_in NAME_PROPERTY demo_config = Inr False"
    "js_in DISABLE_DEFAULT_QUERIES_PROPERTY demo_config = Inr False"
    "js_in QUERIES_PROPERTY demo_config = Inr True"
    "js_get demo_config QUERIES_PROPERTY =
       YArr [YObj [(''uses'', YStr ''security-and-quality'')]]"
    by (simp_all add: demo_config_def NAME_PROPERTY_def DISABLE_DEFAULT_QUERIES_PROPERTY_def
        QUERIES_PROPERTY_def)
  have path: "getPath demo_env = ''/opt/codeql/codeql''"
    by (simp add: demo_env_def)
  show ?thesis
    unfolding loadConfigParsed_def
    by (simp add: in_config path demo_getLanguages demo_addDefaultQueries
        demo_addQueriesFromWorkflow_plus demo_shouldAdd demo_loadPaths demo_addConfigFileQuery
        checkLanguageQueries_def)
qed

lemma demo_loadConfigParsed_plain:
  "loadConfigParsed demo_env (Some ''javascript'') (Some ''security-extended'') cf demo_config
     demo_repository tmp tc co gv =
     Inr \<lparr>languages = [''javascript''],
          queries = [''javascript'' \<mapsto>
            \<lparr>builtin = [''javascript-code-scanning.qls/query.ql'',
                        ''javascript-security-extended.qls/query.ql''], custom = []\<rparr>],
          pathsIgnore = [], paths = [], originalUserInput = demo_config, tempDir = tmp,
          toolCacheDir = tc, codeQLCmd = ''/opt/codeql/codeql'', gitHubVersion = gv\<rparr>"
proof -
  have in_config:
    "js_in NAME_PROPERTY demo_config = Inr False"
    "js_in DISABLE_DEFAULT_QUERIES_PROPERTY demo_config = Inr False"
    "js_in QUERIES_PROPERTY demo_config = Inr True"
    "js_get demo_config QUERIES_PROPERTY =
       YArr [YObj [(''uses'', YStr ''security-and-quality'')]]"
    by (simp_all add: demo_config_def NAME_PROPERTY_def DISABLE_DEFAULT_QUERIES_PROPERTY_def
        QUERIES_PROPERTY_def)
  have path: "getPath demo_env = ''/opt/codeql/codeql''"
    by (simp add: demo_env_def)
  show ?thesis
    unfolding loadConfigParsed_def
    by (simp add: in_config path demo_getLanguages demo_addDefaultQueries
        demo_addQueriesFromWorkflow_plain demo_shouldAdd demo_loadPaths demo_addConfigFileQuery
        checkLanguageQueries_def)
qed

lemma demo_resolve_config:
  "path_resolve demo_env ''/repo'' ''codeql-config.yml'' = ''/repo/codeql-config.yml''"
  "path_resolve demo_env ''/repo'' ''link.yml'' = ''/repo/link.yml''"
  "path_resolve demo_env ''/repo'' ''owner/repo/file.yml'' = ''/repo/owner/repo/file.yml''"
  by (simp_all add: demo_env_def posix_resolve_def)

lemma demo_getLocalConfig:
  "getLocalConfig demo_env ''/repo/codeql-config.yml'' ''/repo'' = Inr demo_config"
  by (simp add: getLocalConfig_def demo_env_def startsWith_def demo_files_def demo_readFile_def
      demo_realpath_def demo_safeLoad_def demo_config_def)

lemma demo_isLocal: "isLocal ''codeql-config.yml''" "isLocal ''link.yml''" "isLocal ''owner/repo/file.yml''"
  by (simp_all add: isLocal_def startsWith_def)

lemma demo_loadConfig_plus:
  "loadConfig demo_env (Some ''javascript'') (Some '' +security-extended'') ''codeql-config.yml''
     demo_repository ''/tmp'' ''/cache'' ''/repo'' () = Inr demo_result_plus"
  by (simp add: loadConfig_def demo_isLocal demo_resolve_config demo_getLocalConfig
      demo_loadConfigParsed_plus demo_result_plus_def)

lemma demo_loadConfig_plain:
  "loadConfig demo_env (Some ''javascript'') (Some ''security-extended'') ''codeql-config.yml''
     demo_repository ''/tmp'' ''/cache'' ''/repo'' () = Inr demo_result_plain"
  by (simp add: loadConfig_def demo_isLocal demo_resolve_config demo_getLocalConfig
      demo_loadConfigParsed_plain demo_result_plain_def)

lemma demo_secret:
  "getLocalConfig demo_env ''/repo/link.yml'' ''/repo'' = Inr (YObj [(''name'', YStr ''secret'')])"
  by (simp add: getLocalConfig_def demo_env_def startsWith_def demo_files_def demo_readFile_def
      demo_realpath_def demo_safeLoad_def)

lemma demo_loadConfig_link:
  "loadConfig demo_env (Some ''javascript'') None ''link.yml''
      demo_repository ''/tmp'' ''/cache'' ''/repo'' () =
   Inr \<lparr>languages = [''javascript''],
        queries = [''javascript'' \<mapsto>
          \<lparr>builtin = [''javascript-code-scanning.qls/query.ql''], custom = []\<rparr>],
        pathsIgnore = [], paths = [], originalUserInput = YObj [(''name'', YStr ''secret'')],
        tempDir = ''/tmp'', toolCacheDir = ''/cache'', codeQLCmd = ''/opt/codeql/codeql'',
        gitHubVersion = ()\<rparr>"
proof -
  have path: "getPath demo_env = ''/opt/codeql/codeql''"
    by (simp add: demo_env_def)
  have "loadConfigParsed demo_env (Some ''javascript'') None ''/repo/link.yml''
      (YObj [(''name'', YStr ''secret'')]) demo_repository ''/tmp'' ''/cache'' ''/repo'' () =
   Inr \<lparr>languages = [''javascript''],
        queries = [''javascript'' \<mapsto>
          \<lparr>builtin = [''javascript-code-scanning.qls/query.ql''], custom = []\<rparr>],
        pathsIgnore = [], paths = [], originalUserInput = YObj [(''name'', YStr ''secret'')],
        tempDir = ''/tmp'', toolCacheDir = ''/cache'', codeQLCmd = ''/opt/codeql/codeql'',
        gitHubVersion = ()\<rparr>"
    unfolding loadConfigParsed_def
    by (simp add: path demo_getLanguages demo_addDefaultQueries shouldAddConfigFileQueries_def
        loadPaths_def checkLanguageQueries_def NAME_PROPERTY_def
        DISABLE_DEFAULT_QUERIES_PROPERTY_def QUERIES_PROPERTY_def PATHS_IGNORE_PROPERTY_def
        PATHS_PROPERTY_def)
  then show ?thesis
    by (simp add: loadConfig_def demo_isLocal demo_resolve_config demo_secret)
qed

lemma demo_loadConfig_no_defaults:
  "loadConfig demo_env (Some ''javascript'') None ''no-defaults.yml''
      demo_repository ''/tmp'' ''/cache'' ''/repo'' () = Inl (noQueriesError ''javascript'')"
proof -
  have r: "path_resolve demo_env ''/repo'' ''no-defaults.yml'' = ''/repo/no-defaults.yml''"
    by (simp add: demo_env_def posix_resolve_def)
  have l: "isLocal ''no-defaults.yml''"
    by (simp add: isLocal_def startsWith_def)
  have c: "getLocalConfig demo_env ''/repo/no-defaults.yml'' ''/repo'' =
      Inr (YObj [(''disable-default-queries'', YBool True)])"
    by (simp add: getLocalConfig_def demo_env_def startsWith_def demo_files_def demo_readFile_def
      demo_realpath_def demo_safeLoad_def)
  have "loadConfigParsed demo_env (Some ''javascript'') None ''/repo/no-defaults.yml''
      (YObj [(''disable-default-queries'', YBool True)]) demo_repository ''/tmp'' ''/cache''
      ''/repo'' () = Inl (noQueriesError ''javascript'')"
    unfolding loadConfigParsed_def
    by (simp add: demo_getLanguages shouldAddConfigFileQueries_def
        loadPaths_def checkLanguageQueries_def noQueriesError_def NAME_PROPERTY_def
        DISABLE_DEFAULT_QUERIES_PROPERTY_def QUERIES_PROPERTY_def PATHS_IGNORE_PROPERTY_def
        PATHS_PROPERTY_def)
  then show ?thesis
    by (simp add: loadConfig_def l r c)
qed

section \<open>Path filters: normalisation\<close>

lemma stripLeadingSlashes_idem:
  "stripLeadingSlashes (stripLeadingSlashes s) = stripLeadingSlashes s"
  by (induction s) auto

lemma stripLeadingSlashes_head: "stripLeadingSlashes s = c # cs \<Longrightarrow> c \<noteq> CHR ''/''"
  by (induction s) (auto split: if_splits)

text \<open>A normalised path has no leading slash left and does not end with \<open>/**\<close>: both
  normalisation steps leave it as it is.\<close>

lemma sanitisePath_fixed:
  "stripLeadingSlashes (sanitisePath s) = sanitisePath s \<and> \<not> endsWith (sanitisePath s) ''/**''"
proof (cases "endsWith (stripLeadingSlashes s) ''/**''")
  case False
  then show ?thesis by (simp add: sanitisePath_def stripLeadingSlashes_idem)
next
  case True
  then obtain x where n: "stripLeadingSlashes s = x @ ''/**''"
    by (auto simp: endsWith_suffix suffix_def)
  have r: "sanitisePath s = x @ ''/''"
    using True n by (simp add: sanitisePath_def)
  have "x \<noteq> []"
    using n stripLeadingSlashes_head [of s "CHR ''/''" "''**''"] by auto
  then obtain c cs where x: "x = c # cs" by (cases x) auto
  with n have "c \<noteq> CHR ''/''"
    using stripLeadingSlashes_head [of s c "cs @ ''/**''"] by simp
  with x r have "stripLeadingSlashes (sanitisePath s) = sanitisePath s" by simp
  moreover have "\<not> endsWith (sanitisePath s) ''/**''"
    unfolding r endsWith_suffix by (auto simp: suffix_def)
  ultimately show ?thesis by simp
qed

lemma sanitisePath_idem: "sanitisePath (sanitisePath s) = sanitisePath s"
  using sanitisePath_fixed [of s] by (simp add: sanitisePath_def [of "sanitisePath s"] Let_def)

text \<open>
  C3, as the code has it. On \<open>"/foo/**"\<close> the leading slash is stripped and only the
  two stars of the trailing \<open>/**\<close> are dropped, so the result keeps its final slash:
  it is \<open>"foo/"\<close>, whatever the property and the configuration file. The
  normalisation runs before the wildcard check, which the input as given would fail.
\<close>

theorem validateAndSanitisePath_foo:
  "validateAndSanitisePath ''/foo/**'' propertyName configFile = Inr ''foo/'' \<and>
   pathStarsRegex None ''/foo/**''"
  by (simp add: validateAndSanitisePath_def sanitisePath_def endsWith_def backslash_def)

theorem validateAndSanitisePath_foo_witness:
  "validateAndSanitisePath ''/foo/**'' ''paths'' ''/repo/codeql-config.yml'' = Inr ''foo/'' \<and>
   pathStarsRegex None ''/foo/**''"
  by (rule validateAndSanitisePath_foo)

text \<open>C3, as the specification has it, fails: the result is not \<open>"foo"\<close>.\<close>

theorem validateAndSanitisePath_foo_counterexample:
  "validateAndSanitisePath ''/foo/**'' ''paths'' ''/repo/codeql-config.yml'' \<noteq> Inr ''foo''"
  by (simp add: validateAndSanitisePath_def sanitisePath_def endsWith_def backslash_def)

text \<open>
  C9. Normalisation is idempotent: whenever \<open>validateAndSanitisePath\<close> accepts a path
  filter and returns \<open>r\<close>, it accepts \<open>r\<close> as well and returns \<open>r\<close> unchanged (for any
  property name and configuration file, which only appear in error messages).
\<close>

theorem validateAndSanitisePath_idempotent:
  "validateAndSanitisePath p propertyName configFile = Inr r \<Longrightarrow>
   validateAndSanitisePath r propertyName' configFile' = Inr r"
  unfolding validateAndSanitisePath_def Let_def
  by (auto simp: sanitisePath_idem split: if_splits)

theorem validateAndSanitisePath_idempotent_witness:
  "validateAndSanitisePath ''//src/**/**'' ''paths'' ''c.yml'' = Inr ''src/**/'' \<and>
   validateAndSanitisePath ''src/**/'' ''paths'' ''c.yml'' = Inr ''src/**/''"
proof -
  have h: "validateAndSanitisePath ''//src/**/**'' ''paths'' ''c.yml'' = Inr ''src/**/''"
    by (simp add: validateAndSanitisePath_def sanitisePath_def endsWith_def backslash_def)
  from h validateAndSanitisePath_idempotent [OF h] show ?thesis by simp
qed

section \<open>Local query paths\<close>

text \<open>
  C6. A local query path whose target under the checkout root does not exist fails
  with the does-not-exist error. One whose target exists, while its canonical path
  (with the separator appended) is not prefixed by the canonical checkout root plus
  separator, fails with the outside-of-the-repository error. The two messages differ.
\<close>

theorem addLocalQueries_errors:
  "(\<not> existsSync env (path_join env checkoutPath p) \<longrightarrow>
      addLocalQueries env rm p checkoutPath cf = Inl (Error (getLocalPathDoesNotExist cf p))) \<and>
   (existsSync env (path_join env checkoutPath p) \<and>
    realpathSync env (path_join env checkoutPath p) = Inr real \<and>
    realpathSync env checkoutPath = Inr root \<and>
    \<not> prefix (root @ path_sep env) (real @ path_sep env) \<longrightarrow>
      addLocalQueries env rm p checkoutPath cf =
        Inl (Error (getLocalPathOutsideOfRepository cf p))) \<and>
   getLocalPathOutsideOfRepository cf p \<noteq> getLocalPathDoesNotExist cf p"
  by (simp add: addLocalQueries_def startsWith_prefix getLocalPathOutsideOfRepository_def
      getLocalPathDoesNotExist_def getConfigFilePropertyError_def split: option.split)

lemma demo_join_outside: "path_join demo_env ''/repo'' ''../outside'' = ''/outside''"
  by (simp add: demo_env_def posix_join_def posix_normalize_def)

lemma demo_join_missing: "path_join demo_env ''/repo'' ''missing'' = ''/repo/missing''"
  by (simp add: demo_env_def posix_join_def posix_normalize_def)

theorem addLocalQueries_errors_witness:
  "addLocalQueries demo_env Map.empty ''missing'' ''/repo'' None =
     Inl (Error (getLocalPathDoesNotExist None ''missing'')) \<and>
   addLocalQueries demo_env Map.empty ''../outside'' ''/repo'' None =
     Inl (Error (getLocalPathOutsideOfRepository None ''../outside'')) \<and>
   getLocalPathOutsideOfRepository None ''../outside'' \<noteq>
     getLocalPathDoesNotExist None ''../outside''"
proof -
  have a: "\<not> existsSync demo_env (path_join demo_env ''/repo'' ''missing'')"
    unfolding demo_join_missing by (simp add: demo_env_def demo_files_def)
  have b: "existsSync demo_env (path_join demo_env ''/repo'' ''../outside'') \<and>
    realpathSync demo_env (path_join demo_env ''/repo'' ''../outside'') = Inr ''/outside'' \<and>
    realpathSync demo_env ''/repo'' = Inr ''/repo'' \<and>
    \<not> prefix (''/repo'' @ path_sep demo_env) (''/outside'' @ path_sep demo_env)"
    unfolding demo_join_outside by (simp add: demo_env_def demo_files_def demo_realpath_def)
  from a b show ?thesis
    using addLocalQueries_errors [where env = demo_env and checkoutPath = "''/repo''"
        and p = "''missing''" and rm = Map.empty and cf = None]
      addLocalQueries_errors [where env = demo_env and checkoutPath = "''/repo''"
        and p = "''../outside''" and real = "''/outside''" and root = "''/repo''"
        and rm = Map.empty and cf = None]
    by blast
qed

section \<open>Validation of resolved queries\<close>

text \<open>
  C7, as the code has it. With an extra search path (custom queries),
  \<open>runResolveQueries\<close> fails whenever \<open>noDeclaredLanguage\<close> or
  \<open>multipleDeclaredLanguages\<close> is not empty. The two buckets are checked one after
  the other and the first failing check throws: when \<open>noDeclaredLanguage\<close> is not
  empty the error lists every file of that bucket (each is a part of the message);
  otherwise, when \<open>multipleDeclaredLanguages\<close> is not empty, the error lists every
  file of that one. With no extra search path (builtin suites) both checks are
  skipped: whatever the buckets hold, the queries of \<open>byLanguage\<close> are added.
\<close>

theorem runResolveQueries_validation:
  "(resolveQueries env toResolve (Some sp) = Inr r \<and> noDeclaredLanguage r \<noteq> [] \<longrightarrow>
      runResolveQueries env rm toResolve (Some sp) =
        Inl (Error (''The following queries do not declare a language. '' @
                    ''Their qlpack.yml files are either missing or is invalid.'' @ [newline] @
                    join [newline] (noDeclaredLanguage r))) \<and>
      (\<forall>f \<in> set (noDeclaredLanguage r). sublist f (join [newline] (noDeclaredLanguage r)))) \<and>
   (resolveQueries env toResolve (Some sp) = Inr r \<and> noDeclaredLanguage r = [] \<and>
    multipleDeclaredLanguages r \<noteq> [] \<longrightarrow>
      runResolveQueries env rm toResolve (Some sp) =
        Inl (Error (''The following queries declare multiple languages. '' @
                    ''Their qlpack.yml files are either missing or is invalid.'' @ [newline] @
                    join [newline] (multipleDeclaredLanguages r))) \<and>
      (\<forall>f \<in> set (multipleDeclaredLanguages r).
         sublist f (join [newline] (multipleDeclaredLanguages r)))) \<and>
   (resolveQueries env toResolve None = Inr r \<longrightarrow>
      runResolveQueries env rm toResolve None =
        Inr (foldl (addResolved None) rm (byLanguage r)))"
  by (simp add: runResolveQueries_def validateQueries_def join_sublist)

theorem runResolveQueries_validation_witness:
  "runResolveQueries (demo_env\<lparr>resolveQueries := fixed_resolve undeclared_and_ambiguous\<rparr>)
     Map.empty [''/repo/queries''] (Some ''/repo'') =
     Inl (Error (''The following queries do not declare a language. '' @
                 ''Their qlpack.yml files are either missing or is invalid.'' @ [newline] @
                 ''/repo/queries/none.ql'')) \<and>
   runResolveQueries (demo_env\<lparr>resolveQueries := fixed_resolve only_ambiguous\<rparr>)
     Map.empty [''/repo/queries''] (Some ''/repo'') =
     Inl (Error (''The following queries declare multiple languages. '' @
                 ''Their qlpack.yml files are either missing or is invalid.'' @ [newline] @
                 ''/repo/queries/both.ql'')) \<and>
   runResolveQueries (demo_env\<lparr>resolveQueries := fixed_resolve undeclared_and_ambiguous\<rparr>)
     Map.empty [''javascript-code-scanning.qls''] None =
     Inr [''javascript'' \<mapsto> \<lparr>builtin = [''/repo/queries/ok.ql''], custom = []\<rparr>]"
proof -
  note v = runResolveQueries_validation [where rm = Map.empty]
  from v [where env = "demo_env\<lparr>resolveQueries := fixed_resolve undeclared_and_ambiguous\<rparr>"
      and r = undeclared_and_ambiguous and toResolve = "[''/repo/queries'']"
      and sp = "''/repo''"]
  have 1: "runResolveQueries
      (demo_env\<lparr>resolveQueries := fixed_resolve undeclared_and_ambiguous\<rparr>)
      Map.empty [''/repo/queries''] (Some ''/repo'') =
     Inl (Error (''The following queries do not declare a language. '' @
                 ''Their qlpack.yml files are either missing or is invalid.'' @ [newline] @
                 ''/repo/queries/none.ql''))"
    by (simp add: fixed_resolve_def undeclared_and_ambiguous_def)
  from v [where env = "demo_env\<lparr>resolveQueries := fixed_resolve only_ambiguous\<rparr>"
      and r = only_ambiguous and toResolve = "[''/repo/queries'']" and sp = "''/repo''"]
  have 2: "runResolveQueries (demo_env\<lparr>resolveQueries := fixed_resolve only_ambiguous\<rparr>)
      Map.empty [''/repo/queries''] (Some ''/repo'') =
     Inl (Error (''The following queries declare multiple languages. '' @
                 ''Their qlpack.yml files are either missing or is invalid.'' @ [newline] @
                 ''/repo/queries/both.ql''))"
    by (simp add: fixed_resolve_def only_ambiguous_def)
  from v [where env = "demo_env\<lparr>resolveQueries := fixed_resolve undeclared_and_ambiguous\<rparr>"
      and r = undeclared_and_ambiguous and toResolve = "[''javascript-code-scanning.qls'']"]
  have 3: "runResolveQueries
      (demo_env\<lparr>resolveQueries := fixed_resolve undeclared_and_ambiguous\<rparr>)
      Map.empty [''javascript-code-scanning.qls''] None =
     Inr [''javascript'' \<mapsto> \<lparr>builtin = [''/repo/queries/ok.ql''], custom = []\<rparr>]"
    by (simp add: fixed_resolve_def undeclared_and_ambiguous_def addResolved_def)
  from 1 2 3 show ?thesis by simp
qed

text \<open>C7, as the specification has it, fails when both buckets are filled: the error
  names the file that declares no language and not the one that declares several.\<close>

theorem runResolveQueries_validation_counterexample:
  "runResolveQueries (demo_env\<lparr>resolveQueries := fixed_resolve undeclared_and_ambiguous\<rparr>)
     Map.empty [''/repo/queries''] (Some ''/repo'') =
     Inl (Error (''The following queries do not declare a language. '' @
                 ''Their qlpack.yml files are either missing or is invalid.'' @ [newline] @
                 ''/repo/queries/none.ql'')) \<and>
   ''/repo/queries/both.ql'' \<in> set (multipleDeclaredLanguages undeclared_and_ambiguous) \<and>
   \<not> sublist ''/repo/queries/both.ql''
       (''The following queries do not declare a language. '' @
        ''Their qlpack.yml files are either missing or is invalid.'' @ [newline] @
        ''/repo/queries/none.ql'')"
  by (simp add: runResolveQueries_def validateQueries_def fixed_resolve_def
      undeclared_and_ambiguous_def newline_def sublist_Cons_right)

section \<open>Remote query references\<close>

text \<open>
  C5, as the code has it. A \<open>uses\<close> string that, once trimmed, is not empty, does not
  start with \<open>./\<close> and contains \<open>/\<close> or \<open>@\<close> is handed to \<open>addRemoteQueries\<close>. There
  it is split at every \<open>@\<close> and must give exactly two parts: a reference with no \<open>@\<close>
  or with more than one is rejected with the uses-invalid error. For
  \<open>owner/repo[/path]@ref\<close> (segments free of \<open>/\<close> and \<open>@\<close>, owner and repo not blank)
  the repository \<open>owner/repo\<close> is checked out at \<open>ref\<close> and the queries are resolved at
  the checkout, or at the remaining segments joined by \<open>/\<close> below it. A locator with
  fewer than two segments, or whose owner or repo is blank, is rejected.
\<close>

theorem addRemoteQueries_grammar:
  "(trim q \<noteq> [] \<and> \<not> prefix ''./'' (trim q) \<and>
    (CHR ''/'' \<in> set (trim q) \<or> CHR ''@'' \<in> set (trim q)) \<longrightarrow>
      parseQueryUses env langs rm q tmp checkoutPath cf =
        addRemoteQueries env rm (trim q) tmp cf) \<and>
   (count_list queryUses (CHR ''@'') \<noteq> 1 \<longrightarrow>
      addRemoteQueries env rm queryUses tmp cf =
        Inl (Error (getQueryUsesInvalid cf (Some queryUses)))) \<and>
   (CHR ''@'' \<notin> set ref \<and>
    (\<forall>seg \<in> set (ownr # rpo # rest). CHR ''/'' \<notin> set seg \<and> CHR ''@'' \<notin> set seg) \<and>
    trim ownr \<noteq> [] \<and> trim rpo \<noteq> [] \<longrightarrow>
      addRemoteQueries env rm (join ''/'' (ownr # rpo # rest) @ ''@'' @ ref) tmp cf =
        thenE (checkoutExternalRepository env (ownr @ ''/'' @ rpo) ref tmp) (\<lambda>checkout.
          runResolveQueries env rm
            [if rest \<noteq> [] then path_join env checkout (join ''/'' rest) else checkout]
            (Some checkout))) \<and>
   (CHR ''@'' \<notin> set ref \<and> segs \<noteq> [] \<and>
    (\<forall>seg \<in> set segs. CHR ''/'' \<notin> set seg \<and> CHR ''@'' \<notin> set seg) \<and>
    (length segs < 2 \<or> (\<exists>seg \<in> set (take 2 segs). trim seg = [])) \<longrightarrow>
      addRemoteQueries env rm (join ''/'' segs @ ''@'' @ ref) tmp cf =
        Inl (Error (getQueryUsesInvalid cf (Some (join ''/'' segs @ ''@'' @ ref)))))"
proof (intro conjI impI)
  assume "trim q \<noteq> [] \<and> \<not> prefix ''./'' (trim q) \<and>
    (CHR ''/'' \<in> set (trim q) \<or> CHR ''@'' \<in> set (trim q))"
  then show "parseQueryUses env langs rm q tmp checkoutPath cf =
      addRemoteQueries env rm (trim q) tmp cf"
    by (auto simp: parseQueryUses_def Let_def startsWith_prefix)
next
  assume "count_list queryUses (CHR ''@'') \<noteq> 1"
  then have "length (split (CHR ''@'') queryUses) \<noteq> 2"
    by (simp add: length_split)
  then show "addRemoteQueries env rm queryUses tmp cf =
      Inl (Error (getQueryUsesInvalid cf (Some queryUses)))"
    by (simp add: addRemoteQueries_def Let_def)
next
  assume a: "CHR ''@'' \<notin> set ref \<and>
    (\<forall>seg \<in> set (ownr # rpo # rest). CHR ''/'' \<notin> set seg \<and> CHR ''@'' \<notin> set seg) \<and>
    trim ownr \<noteq> [] \<and> trim rpo \<noteq> []"
  let ?loc = "join ''/'' (ownr # rpo # rest)"
  have noat: "CHR ''@'' \<notin> set ?loc"
    using a by (intro join_slash_no_at) auto
  have s1: "split (CHR ''@'') (?loc @ ''@'' @ ref) = [?loc, ref]"
    using noat a by (intro split_two) auto
  have s2: "split (CHR ''/'') ?loc = ownr # rpo # rest"
    using a split_join [of "ownr # rpo # rest" "CHR ''/''"] by auto
  show "addRemoteQueries env rm (?loc @ ''@'' @ ref) tmp cf =
      thenE (checkoutExternalRepository env (ownr @ ''/'' @ rpo) ref tmp) (\<lambda>checkout.
        runResolveQueries env rm
          [if rest \<noteq> [] then path_join env checkout (join ''/'' rest) else checkout]
          (Some checkout))"
    unfolding addRemoteQueries_def Let_def s1
    using a by (simp add: s2 del: join.simps cong: if_cong option.case_cong yaml.case_cong bool.case_cong)
next
  assume a: "CHR ''@'' \<notin> set ref \<and> segs \<noteq> [] \<and>
    (\<forall>seg \<in> set segs. CHR ''/'' \<notin> set seg \<and> CHR ''@'' \<notin> set seg) \<and>
    (length segs < 2 \<or> (\<exists>seg \<in> set (take 2 segs). trim seg = []))"
  let ?loc = "join ''/'' segs"
  have noat: "CHR ''@'' \<notin> set ?loc"
    using a by (intro join_slash_no_at) auto
  have s1: "split (CHR ''@'') (?loc @ ''@'' @ ref) = [?loc, ref]"
    using noat a by (intro split_two) auto
  have s2: "split (CHR ''/'') ?loc = segs"
    using a split_join [of segs "CHR ''/''"] by auto
  have "length segs < 2 \<or> trim (segs ! 0) = [] \<or> trim (segs ! 1) = []"
  proof (cases "length segs < 2")
    case False
    then obtain x y zs where "segs = x # y # zs"
      by (cases segs; cases "tl segs") auto
    with a show ?thesis by auto
  qed simp
  then show "addRemoteQueries env rm (?loc @ ''@'' @ ref) tmp cf =
      Inl (Error (getQueryUsesInvalid cf (Some (?loc @ ''@'' @ ref))))"
    unfolding addRemoteQueries_def Let_def s1
    by (auto simp: s2)
qed

theorem addRemoteQueries_grammar_witness:
  "parseQueryUses demo_env [''javascript''] Map.empty '' octo/queries/sub/dir@v1 '' ''/tmp''
     ''/repo'' None =
     addRemoteQueries demo_env Map.empty ''octo/queries/sub/dir@v1'' ''/tmp'' None \<and>
   addRemoteQueries demo_env Map.empty ''octo/queries/sub/dir@v1'' ''/tmp'' None =
     runResolveQueries demo_env Map.empty [''/tmp/octo/queries/sub/dir'']
       (Some ''/tmp/octo/queries'') \<and>
   addRemoteQueries demo_env Map.empty ''octo/queries'' ''/tmp'' None =
     Inl (Error (getQueryUsesInvalid None (Some ''octo/queries''))) \<and>
   addRemoteQueries demo_env Map.empty ''/queries@v1'' ''/tmp'' None =
     Inl (Error (getQueryUsesInvalid None (Some ''/queries@v1'')))"
proof -
  have t: "trim '' octo/queries/sub/dir@v1 '' = ''octo/queries/sub/dir@v1''"
    "trim ''octo'' \<noteq> []" "trim ''queries'' \<noteq> []" "trim [] = []"
    by (simp_all add: trim_def trimStart_def trimEnd_def isWhiteSpace_def)
  have e: "checkoutExternalRepository demo_env ''octo/queries'' ''v1'' ''/tmp'' =
      Inr ''/tmp/octo/queries''"
    "path_join demo_env ''/tmp/octo/queries'' ''sub/dir'' = ''/tmp/octo/queries/sub/dir''"
    by (simp_all add: demo_env_def posix_join_def posix_normalize_def)
  note g = addRemoteQueries_grammar [where env = demo_env and rm = Map.empty
      and tmp = "''/tmp''" and cf = None]
  from g [where q = "'' octo/queries/sub/dir@v1 ''" and langs = "[''javascript'']"
      and checkoutPath = "''/repo''"]
  have 1: "parseQueryUses demo_env [''javascript''] Map.empty '' octo/queries/sub/dir@v1 ''
      ''/tmp'' ''/repo'' None =
     addRemoteQueries demo_env Map.empty ''octo/queries/sub/dir@v1'' ''/tmp'' None"
    by (simp add: t)
  from g [where ownr = "''octo''" and rpo = "''queries''" and rest = "[''sub'', ''dir'']"
      and ref = "''v1''"]
  have 2: "addRemoteQueries demo_env Map.empty ''octo/queries/sub/dir@v1'' ''/tmp'' None =
     runResolveQueries demo_env Map.empty [''/tmp/octo/queries/sub/dir'']
       (Some ''/tmp/octo/queries'')"
    by (simp add: t e)
  from g [where queryUses = "''octo/queries''"]
  have 3: "addRemoteQueries demo_env Map.empty ''octo/queries'' ''/tmp'' None =
     Inl (Error (getQueryUsesInvalid None (Some ''octo/queries'')))"
    by simp
  from g [where segs = "['''', ''queries'']" and ref = "''v1''"]
  have 4: "addRemoteQueries demo_env Map.empty ''/queries@v1'' ''/tmp'' None =
     Inl (Error (getQueryUsesInvalid None (Some ''/queries@v1'')))"
    by (simp add: t)
  from 1 2 3 4 show ?thesis by simp
qed

text \<open>C5, as the specification has it, fails: a reference with two \<open>@\<close> is not parsed
  with the text after the last \<open>@\<close> as its ref, it is rejected.\<close>

theorem addRemoteQueries_grammar_counterexample:
  "parseQueryUses demo_env [''javascript''] Map.empty ''octo/queries@v1@v2'' ''/tmp''
     ''/repo'' None =
     Inl (Error (getQueryUsesInvalid None (Some ''octo/queries@v1@v2'')))"
  by (simp add: parseQueryUses_def addRemoteQueries_def trim_def trimStart_def trimEnd_def
      isWhiteSpace_def startsWith_def)

section \<open>Languages from the explicit input\<close>


lemma set_firstSeen [simp]: "set (firstSeen xs) = set xs"
  by (induction xs rule: firstSeen.induct) auto

lemma distinct_firstSeen [simp]: "distinct (firstSeen xs)"
  by (induction xs rule: firstSeen.induct) auto






section \<open>Where the configuration file is read\<close>

text \<open>The remote content API plays no part in anything but \<open>getRemoteConfig\<close>.\<close>

lemma runResolveQueries_getContent [simp]:
  "runResolveQueries (env\<lparr>getContent := g\<rparr>) = runResolveQueries env"
  by (simp add: fun_eq_iff runResolveQueries_def Let_def cong: if_cong option.case_cong yaml.case_cong bool.case_cong)

lemma addDefaultQueries_getContent [simp]:
  "addDefaultQueries (env\<lparr>getContent := g\<rparr>) = addDefaultQueries env"
  by (simp add: fun_eq_iff addDefaultQueries_def Let_def cong: if_cong option.case_cong yaml.case_cong bool.case_cong)

lemma addBuiltinSuiteQueries_getContent [simp]:
  "addBuiltinSuiteQueries (env\<lparr>getContent := g\<rparr>) = addBuiltinSuiteQueries env"
  by (simp add: fun_eq_iff addBuiltinSuiteQueries_def Let_def cong: if_cong option.case_cong yaml.case_cong bool.case_cong)

lemma addLocalQueries_getContent [simp]:
  "addLocalQueries (env\<lparr>getContent := g\<rparr>) = addLocalQueries env"
  by (simp add: fun_eq_iff addLocalQueries_def Let_def cong: if_cong option.case_cong yaml.case_cong bool.case_cong)

lemma addRemoteQueries_getContent [simp]:
  "addRemoteQueries (env\<lparr>getContent := g\<rparr>) = addRemoteQueries env"
  by (simp add: fun_eq_iff addRemoteQueries_def Let_def cong: if_cong option.case_cong yaml.case_cong bool.case_cong)

lemma parseQueryUses_getContent [simp]:
  "parseQueryUses (env\<lparr>getContent := g\<rparr>) = parseQueryUses env"
  by (simp add: fun_eq_iff parseQueryUses_def Let_def cong: if_cong option.case_cong yaml.case_cong bool.case_cong)

lemma addQueriesFromWorkflow_getContent [simp]:
  "addQueriesFromWorkflow (env\<lparr>getContent := g\<rparr>) = addQueriesFromWorkflow env"
  by (simp add: fun_eq_iff addQueriesFromWorkflow_def Let_def cong: if_cong option.case_cong yaml.case_cong bool.case_cong)

lemma addConfigFileQuery_getContent [simp]:
  "addConfigFileQuery (env\<lparr>getContent := g\<rparr>) = addConfigFileQuery env"
  by (simp add: fun_eq_iff addConfigFileQuery_def Let_def cong: if_cong option.case_cong yaml.case_cong bool.case_cong)

lemma addParsedLanguage_getContent [simp]:
  "addParsedLanguage (env\<lparr>getContent := g\<rparr>) = addParsedLanguage env"
  by (simp add: fun_eq_iff addParsedLanguage_def Let_def cong: if_cong option.case_cong yaml.case_cong bool.case_cong)

lemma checkLanguage_getContent [simp]:
  "checkLanguage (env\<lparr>getContent := g\<rparr>) = checkLanguage env"
  by (simp add: fun_eq_iff checkLanguage_def Let_def cong: if_cong option.case_cong yaml.case_cong bool.case_cong)

lemma getLanguages_getContent [simp]:
  "getLanguages (env\<lparr>getContent := g\<rparr>) = getLanguages env"
  by (simp add: fun_eq_iff getLanguages_def getLanguagesInRepo_def Let_def cong: if_cong option.case_cong yaml.case_cong bool.case_cong)

lemma getLocalConfig_getContent [simp]:
  "getLocalConfig (env\<lparr>getContent := g\<rparr>) = getLocalConfig env"
  by (simp add: fun_eq_iff getLocalConfig_def Let_def cong: if_cong option.case_cong yaml.case_cong bool.case_cong)

lemma loadConfigParsed_getContent [simp]:
  "loadConfigParsed (env\<lparr>getContent := g\<rparr>) = loadConfigParsed env"
  by (simp add: fun_eq_iff loadConfigParsed_def Let_def cong: if_cong option.case_cong yaml.case_cong bool.case_cong)

text \<open>
  C10. \<open>isLocal\<close> holds exactly for the references that start with \<open>./\<close> or contain no
  \<open>@\<close>. Every such reference, and so every reference without \<open>@\<close>, is read by
  \<open>loadConfig\<close> as a local file, at the path resolved against the checkout root, and
  \<open>loadConfig\<close> does not depend on the remote content API for it. Every other
  reference, one that contains \<open>@\<close> and does not start with \<open>./\<close>, is fetched with
  \<open>getRemoteConfig\<close>. The two cases cover all references.
\<close>

theorem isLocal_without_at:
  "(isLocal configFile \<longleftrightarrow> prefix ''./'' configFile \<or> CHR ''@'' \<notin> set configFile) \<and>
   (prefix ''./'' configFile \<or> CHR ''@'' \<notin> set configFile \<longrightarrow>
      loadConfig env li qi configFile repository tmp tc checkoutPath gv =
        thenE (getLocalConfig env (path_resolve env checkoutPath configFile) checkoutPath)
          (\<lambda>parsedYAML. loadConfigParsed env li qi (path_resolve env checkoutPath configFile)
             parsedYAML repository tmp tc checkoutPath gv) \<and>
      loadConfig (env\<lparr>getContent := g\<rparr>) li qi configFile repository tmp tc checkoutPath gv =
        loadConfig env li qi configFile repository tmp tc checkoutPath gv) \<and>
   (CHR ''@'' \<in> set configFile \<and> \<not> prefix ''./'' configFile \<longrightarrow>
      loadConfig env li qi configFile repository tmp tc checkoutPath gv =
        thenE (getRemoteConfig env configFile)
          (\<lambda>parsedYAML. loadConfigParsed env li qi configFile parsedYAML repository tmp tc
             checkoutPath gv))"
  by (auto simp: isLocal_def loadConfig_def startsWith_prefix Let_def)

theorem isLocal_without_at_witness:
  "isLocal ''owner/repo/file.yml'' \<and>
   loadConfig demo_env (Some ''javascript'') None ''owner/repo/file.yml'' demo_repository
     ''/tmp'' ''/cache'' ''/repo'' () =
     Inl (Error (getConfigFileDoesNotExistErrorMessage ''/repo/owner/repo/file.yml'')) \<and>
   isLocal ''./a/b/cfg.yml@main'' \<and>
   loadConfig demo_env (Some ''javascript'') None ''./a/b/cfg.yml@main'' demo_repository
     ''/tmp'' ''/cache'' ''/repo'' () =
     Inl (Error (getConfigFileDoesNotExistErrorMessage ''/repo/a/b/cfg.yml@main'')) \<and>
   \<not> isLocal ''owner/repo/file.yml@main'' \<and>
   loadConfig demo_env (Some ''javascript'') None ''owner/repo/file.yml@main'' demo_repository
     ''/tmp'' ''/cache'' ''/repo'' () =
     Inl (Error (getConfigFileDirectoryGivenMessage ''owner/repo/file.yml@main''))"
proof -
  have c: "getLocalConfig demo_env ''/repo/owner/repo/file.yml'' ''/repo'' =
      Inl (Error (getConfigFileDoesNotExistErrorMessage ''/repo/owner/repo/file.yml''))"
    "getLocalConfig demo_env ''/repo/a/b/cfg.yml@main'' ''/repo'' =
      Inl (Error (getConfigFileDoesNotExistErrorMessage ''/repo/a/b/cfg.yml@main''))"
    by (simp_all add: getLocalConfig_def demo_env_def startsWith_def demo_files_def)
  have p: "path_resolve demo_env ''/repo'' ''./a/b/cfg.yml@main'' = ''/repo/a/b/cfg.yml@main''"
    by (simp add: demo_env_def posix_resolve_def)
  have r: "getRemoteConfig demo_env ''owner/repo/file.yml@main'' =
      Inl (Error (getConfigFileDirectoryGivenMessage ''owner/repo/file.yml@main''))"
    by (simp add: getRemoteConfig_def formatAt_def demo_env_def)
  note t = isLocal_without_at [where env = demo_env and li = "Some ''javascript''"
      and qi = None and repository = demo_repository and tmp = "''/tmp''"
      and tc = "''/cache''" and checkoutPath = "''/repo''" and gv = "()"]
  from t [where configFile = "''owner/repo/file.yml''"]
    t [where configFile = "''./a/b/cfg.yml@main''"]
    t [where configFile = "''owner/repo/file.yml@main''"]
  show ?thesis
    by (simp add: c r p demo_resolve_config)
qed

text \<open>\<open>getLocalConfig\<close> never asks for a canonical path: its result is the same
  whatever \<open>realpathSync\<close> answers.\<close>

lemma getLocalConfig_realpath:
  "getLocalConfig (env\<lparr>realpathSync := f\<rparr>) = getLocalConfig env"
  by (simp add: fun_eq_iff getLocalConfig_def cong: if_cong)

text \<open>
  C4. In any environment the result of \<open>getLocalConfig\<close> does not depend on
  \<open>realpathSync\<close>. On the example: \<open>link.yml\<close> resolves to \<open>/repo/link.yml\<close>, a symbolic link inside
  the checkout whose canonical path \<open>/secret/config.yml\<close> is not below the canonical
  checkout root. \<open>getLocalConfig\<close> compares the path as resolved, without
  canonicalising it, so it reads the file outside the checkout and \<open>loadConfig\<close>
  succeeds with its contents. \<open>addLocalQueries\<close> rejects the same link.
\<close>

theorem getLocalConfig_follows_symlink:
  "getLocalConfig (env\<lparr>realpathSync := f\<rparr>) configFile checkoutPath =
     getLocalConfig env configFile checkoutPath \<and>
   path_resolve demo_env ''/repo'' ''link.yml'' = ''/repo/link.yml'' \<and>
   realpathSync demo_env ''/repo/link.yml'' = Inr ''/secret/config.yml'' \<and>
   realpathSync demo_env ''/repo'' = Inr ''/repo'' \<and>
   \<not> prefix (''/repo'' @ path_sep demo_env) (''/secret/config.yml'' @ path_sep demo_env) \<and>
   getLocalConfig demo_env ''/repo/link.yml'' ''/repo'' = Inr (YObj [(''name'', YStr ''secret'')]) \<and>
   loadConfig demo_env (Some ''javascript'') None ''link.yml''
      demo_repository ''/tmp'' ''/cache'' ''/repo'' () =
     Inr \<lparr>languages = [''javascript''],
          queries = [''javascript'' \<mapsto>
            \<lparr>builtin = [''javascript-code-scanning.qls/query.ql''], custom = []\<rparr>],
          pathsIgnore = [], paths = [], originalUserInput = YObj [(''name'', YStr ''secret'')],
          tempDir = ''/tmp'', toolCacheDir = ''/cache'', codeQLCmd = ''/opt/codeql/codeql'',
          gitHubVersion = ()\<rparr> \<and>
   addLocalQueries demo_env Map.empty ''link.yml'' ''/repo'' None =
     Inl (Error (getLocalPathOutsideOfRepository None ''link.yml''))"
proof -
  have j: "path_join demo_env ''/repo'' ''link.yml'' = ''/repo/link.yml''"
    by (simp add: demo_env_def posix_join_def posix_normalize_def)
  have fs: "realpathSync demo_env ''/repo/link.yml'' = Inr ''/secret/config.yml''"
    "realpathSync demo_env ''/repo'' = Inr ''/repo''"
    "existsSync demo_env ''/repo/link.yml''"
    "path_sep demo_env = ''/''"
    by (simp_all add: demo_env_def demo_realpath_def demo_files_def)
  have "addLocalQueries demo_env Map.empty ''link.yml'' ''/repo'' None =
     Inl (Error (getLocalPathOutsideOfRepository None ''link.yml''))"
    by (simp add: addLocalQueries_def j fs startsWith_def)
  with fs demo_secret demo_loadConfig_link demo_resolve_config show ?thesis
    by (simp add: getLocalConfig_realpath)
qed

theorem getLocalConfig_follows_symlink_witness:
  "getLocalConfig demo_env ''/repo/link.yml'' ''/repo'' = Inr (YObj [(''name'', YStr ''secret'')]) \<and>
   realpathSync demo_env ''/repo/link.yml'' = Inr ''/secret/config.yml''"
  using getLocalConfig_follows_symlink by blast

section \<open>Merging the query sources\<close>

lemma extends_refl [simp]: "extends q q"
  by (auto simp: extends_def split: option.split)

lemma extends_trans: "extends a b \<Longrightarrow> extends b c \<Longrightarrow> extends a c"
  unfolding extends_def
proof (intro allI)
  fix language
  assume ab: "\<forall>language. case a language of None \<Rightarrow> True | Some lq \<Rightarrow>
      (case b language of None \<Rightarrow> False
       | Some lq' \<Rightarrow> prefix (builtin lq) (builtin lq') \<and> prefix (custom lq) (custom lq'))"
    and bc: "\<forall>language. case b language of None \<Rightarrow> True | Some lq \<Rightarrow>
      (case c language of None \<Rightarrow> False
       | Some lq' \<Rightarrow> prefix (builtin lq) (builtin lq') \<and> prefix (custom lq) (custom lq'))"
  from ab [rule_format, of language] bc [rule_format, of language]
  show "case a language of None \<Rightarrow> True | Some lq \<Rightarrow>
      (case c language of None \<Rightarrow> False
       | Some lq' \<Rightarrow> prefix (builtin lq) (builtin lq') \<and> prefix (custom lq) (custom lq'))"
    by (auto split: option.splits intro: prefix_order.trans)
qed

lemma addResolved_extends: "extends rm (addResolved e rm entry)"
  by (auto simp: extends_def addResolved_def Let_def split: option.split)

lemma foldl_addResolved_extends: "extends rm (foldl (addResolved e) rm entries)"
proof (induction entries arbitrary: rm)
  case Nil
  show ?case by simp
next
  case (Cons entry entries)
  from addResolved_extends [of rm e entry] Cons [of "addResolved e rm entry"]
  show ?case by (auto intro: extends_trans)
qed

lemma runResolveQueries_extends:
  "runResolveQueries env rm toResolve e = Inr rm' \<Longrightarrow> extends rm rm'"
  by (auto simp: runResolveQueries_def thenE_Inr foldl_addResolved_extends)

lemma addDefaultQueries_extends:
  "addDefaultQueries env langs rm = Inr rm' \<Longrightarrow> extends rm rm'"
  by (auto simp: addDefaultQueries_def dest: runResolveQueries_extends)

lemma parseQueryUses_extends:
  "parseQueryUses env langs rm q tmp co cf = Inr rm' \<Longrightarrow> extends rm rm'"
  by (auto simp: parseQueryUses_def addLocalQueries_def addBuiltinSuiteQueries_def
      addRemoteQueries_def Let_def thenE_Inr split: if_splits dest: runResolveQueries_extends)

lemma forE_extends:
  assumes step: "\<And>s x s'. f s x = Inr s' \<Longrightarrow> extends s s'"
  shows "forE f s xs = Inr s' \<Longrightarrow> extends s s'"
proof (induction xs arbitrary: s)
  case Nil
  then show ?case by simp
next
  case (Cons x xs)
  then obtain s1 where "f s x = Inr s1" "forE f s1 xs = Inr s'"
    by (auto simp: thenE_Inr)
  with step Cons.IH show ?case by (blast intro: extends_trans)
qed

lemma addQueriesFromWorkflow_extends:
  "addQueriesFromWorkflow env r langs rm tmp co = Inr rm' \<Longrightarrow> extends rm rm'"
  unfolding addQueriesFromWorkflow_def Let_def
  by (erule forE_extends [rotated]) (rule parseQueryUses_extends)

lemma addConfigFileQuery_extends:
  "addConfigFileQuery env langs tmp co cf rm query = Inr rm' \<Longrightarrow> extends rm rm'"
  by (auto simp: addConfigFileQuery_def thenE_Inr split: bool.splits yaml.splits
      dest: parseQueryUses_extends)

lemma shouldAddConfigFileQueries_additive:
  "shouldAddConfigFileQueries qi = additive qi"
proof -
  have "take (Suc 0) s = ''+'' \<longleftrightarrow> prefix ''+'' s" for s
    by (cases s) auto
  then show ?thesis
    by (auto simp: shouldAddConfigFileQueries_def additive_def split: option.split)
qed

text \<open>What a successful \<open>loadConfig\<close> went through.\<close>

lemma loadConfigParsed_Inr:
  assumes ok: "loadConfigParsed env li qi cf y repository tmp tc co gv = Inr cfg"
  obtains hasDisable disable q1 q2 where
    "getLanguages env li repository = Inr (languages cfg)"
    and "originalUserInput cfg = y"
    and "js_in DISABLE_DEFAULT_QUERIES_PROPERTY y = Inr hasDisable"
    and "(if hasDisable then
              (case js_get y DISABLE_DEFAULT_QUERIES_PROPERTY of
                 YBool b \<Rightarrow> Inr b
               | _ \<Rightarrow> Inl (Error (getDisableDefaultQueriesInvalid cf)))
            else Inr False) = Inr disable"
    and "(if \<not> disable then addDefaultQueries env (languages cfg) Map.empty
            else Inr Map.empty) = Inr q1"
    and "(case qi of
              None \<Rightarrow> Inr q1
            | Some q \<Rightarrow>
                if q \<noteq> [] then addQueriesFromWorkflow env q (languages cfg) q1 tmp co
                else Inr q1) = Inr q2"
    and "(if shouldAddConfigFileQueries qi then
              thenE (js_in QUERIES_PROPERTY y) (\<lambda>hasQueries.
                if hasQueries then
                  (case js_get y QUERIES_PROPERTY of
                     YArr entries \<Rightarrow>
                       forE (addConfigFileQuery env (languages cfg) tmp co cf) q2 entries
                   | _ \<Rightarrow> Inl (Error (getQueriesInvalid cf)))
                else Inr q2)
            else Inr q2) = Inr (queries cfg)"
    and "forE (checkLanguageQueries (queries cfg)) () (languages cfg) = Inr ()"
proof -
  from ok obtain hasName langs hasDisable disable q1 q2 q3 ignored included and u :: unit where
    langs: "getLanguages env li repository = Inr langs"
    and hd: "js_in DISABLE_DEFAULT_QUERIES_PROPERTY y = Inr hasDisable"
    and d: "(if hasDisable then
              (case js_get y DISABLE_DEFAULT_QUERIES_PROPERTY of
                 YBool b \<Rightarrow> Inr b
               | _ \<Rightarrow> Inl (Error (getDisableDefaultQueriesInvalid cf)))
            else Inr False) = Inr disable"
    and q1: "(if \<not> disable then addDefaultQueries env langs Map.empty
            else Inr Map.empty) = Inr q1"
    and q2: "(case qi of
              None \<Rightarrow> Inr q1
            | Some q \<Rightarrow>
                if q \<noteq> [] then addQueriesFromWorkflow env q langs q1 tmp co
                else Inr q1) = Inr q2"
    and q3: "(if shouldAddConfigFileQueries qi then
              thenE (js_in QUERIES_PROPERTY y) (\<lambda>hasQueries.
                if hasQueries then
                  (case js_get y QUERIES_PROPERTY of
                     YArr entries \<Rightarrow>
                       forE (addConfigFileQuery env langs tmp co cf) q2 entries
                   | _ \<Rightarrow> Inl (Error (getQueriesInvalid cf)))
                else Inr q2)
            else Inr q2) = Inr q3"
    and chk: "forE (checkLanguageQueries q3) () langs = Inr u"
    and cfg: "cfg = \<lparr>languages = langs, queries = q3, pathsIgnore = ignored, paths = included,
          originalUserInput = y, tempDir = tmp, toolCacheDir = tc,
          codeQLCmd = getPath env, gitHubVersion = gv\<rparr>"
    unfolding loadConfigParsed_def thenE_Inr by blast
  have sel: "languages cfg = langs" "queries cfg = q3" "originalUserInput cfg = y"
    by (simp_all add: cfg)
  show thesis
  proof (rule that [of hasDisable disable q1 q2])
    show "getLanguages env li repository = Inr (languages cfg)"
      unfolding sel by (rule langs)
    show "originalUserInput cfg = y"
      by (rule sel)
    show "js_in DISABLE_DEFAULT_QUERIES_PROPERTY y = Inr hasDisable"
      by (rule hd)
    show "forE (checkLanguageQueries (queries cfg)) () (languages cfg) = Inr ()"
      unfolding sel using chk by simp
  qed (unfold sel, rule d, rule q1, rule q2, rule q3)
qed

lemma loadConfig_Inr:
  assumes "loadConfig env li qi configFile repository tmp tc co gv = Inr cfg"
  shows "loadConfigParsed env li qi
           (if isLocal configFile then path_resolve env co configFile else configFile)
           (originalUserInput cfg) repository tmp tc co gv = Inr cfg"
proof -
  let ?cf = "if isLocal configFile then path_resolve env co configFile else configFile"
  from assms obtain y where y: "loadConfigParsed env li qi ?cf y repository tmp tc co gv = Inr cfg"
    by (auto simp: loadConfig_def Let_def thenE_Inr split: if_splits)
  from y have "originalUserInput cfg = y"
    by (rule loadConfigParsed_Inr)
  with y show ?thesis by simp
qed

text \<open>
  C1, as the code has it. When \<open>loadConfig\<close> succeeds, its query set is built in three
  steps. First the default queries \<open>D\<close>, unless the file sets
  \<open>disable-default-queries\<close> to true (\<open>q1\<close>). Then the run-parameter queries \<open>R\<close>, when
  they are present and not empty (\<open>q2\<close>). Then the queries \<open>C\<close> of the file, when it
  has any and \<open>R\<close> is absent, empty or, once its leading white space is trimmed,
  starts with \<open>+\<close>; otherwise \<open>C\<close> is skipped and the result is \<open>q2\<close>. Each step only
  appends, so the result contains \<open>D\<close> (if not disabled) and \<open>R\<close>.
\<close>

theorem loadConfig_query_precedence:
  assumes ok: "loadConfig env li qi configFile repository tmp tc co gv = Inr cfg"
  shows "\<exists>q1 q2.
    (if js_in DISABLE_DEFAULT_QUERIES_PROPERTY (originalUserInput cfg) = Inr True \<and>
        js_get (originalUserInput cfg) DISABLE_DEFAULT_QUERIES_PROPERTY = YBool True
     then q1 = Map.empty
     else addDefaultQueries env (languages cfg) Map.empty = Inr q1) \<and>
    (case qi of
       None \<Rightarrow> q2 = q1
     | Some r \<Rightarrow>
         if r = [] then q2 = q1
         else addQueriesFromWorkflow env r (languages cfg) q1 tmp co = Inr q2) \<and>
    (if additive qi \<and> js_in QUERIES_PROPERTY (originalUserInput cfg) = Inr True
     then \<exists>entries. js_get (originalUserInput cfg) QUERIES_PROPERTY = YArr entries \<and>
            forE (addConfigFileQuery env (languages cfg) tmp co
                    (if isLocal configFile then path_resolve env co configFile else configFile))
              q2 entries = Inr (queries cfg)
     else queries cfg = q2) \<and>
    extends q1 q2 \<and> extends q2 (queries cfg)"
proof -
  let ?cf = "if isLocal configFile then path_resolve env co configFile else configFile"
  let ?y = "originalUserInput cfg"
  from loadConfig_Inr [OF ok] obtain hasDisable disable q1 q2 where
    hd: "js_in DISABLE_DEFAULT_QUERIES_PROPERTY ?y = Inr hasDisable"
    and d: "(if hasDisable then
              (case js_get ?y DISABLE_DEFAULT_QUERIES_PROPERTY of
                 YBool b \<Rightarrow> Inr b
               | _ \<Rightarrow> Inl (Error (getDisableDefaultQueriesInvalid ?cf)))
            else Inr False) = Inr disable"
    and q1: "(if \<not> disable then addDefaultQueries env (languages cfg) Map.empty
            else Inr Map.empty) = Inr q1"
    and q2: "(case qi of
              None \<Rightarrow> Inr q1
            | Some q \<Rightarrow>
                if q \<noteq> [] then addQueriesFromWorkflow env q (languages cfg) q1 tmp co
                else Inr q1) = Inr q2"
    and q3: "(if shouldAddConfigFileQueries qi then
              thenE (js_in QUERIES_PROPERTY ?y) (\<lambda>hasQueries.
                if hasQueries then
                  (case js_get ?y QUERIES_PROPERTY of
                     YArr entries \<Rightarrow>
                       forE (addConfigFileQuery env (languages cfg) tmp co ?cf) q2 entries
                   | _ \<Rightarrow> Inl (Error (getQueriesInvalid ?cf)))
                else Inr q2)
            else Inr q2) = Inr (queries cfg)"
    by (rule loadConfigParsed_Inr)
  have dis: "disable \<longleftrightarrow> hasDisable \<and> js_get ?y DISABLE_DEFAULT_QUERIES_PROPERTY = YBool True"
    using d by (auto split: if_splits yaml.splits)
  have p1: "if js_in DISABLE_DEFAULT_QUERIES_PROPERTY ?y = Inr True \<and>
        js_get ?y DISABLE_DEFAULT_QUERIES_PROPERTY = YBool True
     then q1 = Map.empty
     else addDefaultQueries env (languages cfg) Map.empty = Inr q1"
    using q1 dis hd by (auto split: if_splits)
  have p2: "case qi of
       None \<Rightarrow> q2 = q1
     | Some r \<Rightarrow>
         if r = [] then q2 = q1
         else addQueriesFromWorkflow env r (languages cfg) q1 tmp co = Inr q2"
    using q2 by (auto split: option.splits if_splits)
  have p3: "if additive qi \<and> js_in QUERIES_PROPERTY ?y = Inr True
     then \<exists>entries. js_get ?y QUERIES_PROPERTY = YArr entries \<and>
            forE (addConfigFileQuery env (languages cfg) tmp co ?cf) q2 entries =
              Inr (queries cfg)
     else queries cfg = q2"
    using q3 unfolding shouldAddConfigFileQueries_additive
    by (auto simp: thenE_Inr split: if_splits yaml.splits)
  have e1: "extends q1 q2"
    using q2 by (auto split: option.splits if_splits dest: addQueriesFromWorkflow_extends)
  have e2: "extends q2 (queries cfg)"
    using q3 forE_extends [of "addConfigFileQuery env (languages cfg) tmp co ?cf",
        OF addConfigFileQuery_extends]
    by (auto simp: thenE_Inr split: if_splits yaml.splits)
  from p1 p2 p3 e1 e2 show ?thesis
    by blast
qed

theorem loadConfig_query_precedence_witness:
  "loadConfig demo_env (Some ''javascript'') (Some '' +security-extended'') ''codeql-config.yml''
     demo_repository ''/tmp'' ''/cache'' ''/repo'' () = Inr demo_result_plus \<and>
   (\<exists>q1 q2.
      addDefaultQueries demo_env [''javascript''] Map.empty = Inr q1 \<and>
      addQueriesFromWorkflow demo_env '' +security-extended'' [''javascript''] q1 ''/tmp''
        ''/repo'' = Inr q2 \<and>
      forE (addConfigFileQuery demo_env [''javascript''] ''/tmp'' ''/repo''
              ''/repo/codeql-config.yml'')
        q2 [YObj [(''uses'', YStr ''security-and-quality'')]] = Inr (queries demo_result_plus) \<and>
      extends q1 q2 \<and> extends q2 (queries demo_result_plus)) \<and>
   loadConfig demo_env (Some ''javascript'') (Some ''security-extended'') ''codeql-config.yml''
     demo_repository ''/tmp'' ''/cache'' ''/repo'' () = Inr demo_result_plain \<and>
   (\<exists>q1.
      addDefaultQueries demo_env [''javascript''] Map.empty = Inr q1 \<and>
      addQueriesFromWorkflow demo_env ''security-extended'' [''javascript''] q1 ''/tmp''
        ''/repo'' = Inr (queries demo_result_plain) \<and>
      extends q1 (queries demo_result_plain))"
proof -
  have a: "additive (Some '' +security-extended'')" "\<not> additive (Some ''security-extended'')"
    by (simp_all add: additive_def trimStart_def isWhiteSpace_def)
  have y: "originalUserInput demo_result_plus = demo_config"
    "languages demo_result_plus = [''javascript'']"
    "originalUserInput demo_result_plain = demo_config"
    "languages demo_result_plain = [''javascript'']"
    by (simp_all add: demo_result_plus_def demo_result_plain_def)
  have in_config:
    "js_in DISABLE_DEFAULT_QUERIES_PROPERTY demo_config = Inr False"
    "js_in QUERIES_PROPERTY demo_config = Inr True"
    "js_get demo_config QUERIES_PROPERTY =
       YArr [YObj [(''uses'', YStr ''security-and-quality'')]]"
    by (simp_all add: demo_config_def DISABLE_DEFAULT_QUERIES_PROPERTY_def QUERIES_PROPERTY_def)
  from loadConfig_query_precedence [OF demo_loadConfig_plus]
  have 1: "\<exists>q1 q2.
      addDefaultQueries demo_env [''javascript''] Map.empty = Inr q1 \<and>
      addQueriesFromWorkflow demo_env '' +security-extended'' [''javascript''] q1 ''/tmp''
        ''/repo'' = Inr q2 \<and>
      forE (addConfigFileQuery demo_env [''javascript''] ''/tmp'' ''/repo''
              ''/repo/codeql-config.yml'')
        q2 [YObj [(''uses'', YStr ''security-and-quality'')]] = Inr (queries demo_result_plus) \<and>
      extends q1 q2 \<and> extends q2 (queries demo_result_plus)"
    by (simp add: a y in_config demo_isLocal demo_resolve_config)
  from loadConfig_query_precedence [OF demo_loadConfig_plain]
  have 2: "\<exists>q1.
      addDefaultQueries demo_env [''javascript''] Map.empty = Inr q1 \<and>
      addQueriesFromWorkflow demo_env ''security-extended'' [''javascript''] q1 ''/tmp''
        ''/repo'' = Inr (queries demo_result_plain) \<and>
      extends q1 (queries demo_result_plain)"
    by (auto simp: a y in_config)
  from 1 2 demo_loadConfig_plus demo_loadConfig_plain show ?thesis
    by blast
qed

text \<open>C1, as the specification has it, fails: run-parameter queries that start with a
  space and then \<open>+\<close> do not start with \<open>+\<close>, yet the query of the configuration file
  is not skipped; it is the last of the result.\<close>

theorem loadConfig_query_precedence_counterexample:
  "\<not> prefix ''+'' '' +security-extended'' \<and>
   loadConfig demo_env (Some ''javascript'') (Some '' +security-extended'') ''codeql-config.yml''
     demo_repository ''/tmp'' ''/cache'' ''/repo'' () = Inr demo_result_plus \<and>
   map_option builtin (queries demo_result_plus ''javascript'') =
     Some [''javascript-code-scanning.qls/query.ql'',
           ''javascript-security-extended.qls/query.ql'',
           ''javascript-security-and-quality.qls/query.ql''] \<and>
   js_get (originalUserInput demo_result_plus) QUERIES_PROPERTY =
     YArr [YObj [(''uses'', YStr ''security-and-quality'')]]"
  using demo_loadConfig_plus
  by (simp add: demo_result_plus_def demo_config_def QUERIES_PROPERTY_def)

section \<open>No language without queries\<close>







text \<open>Running the example: the resolver plays no part in reading the file or in the
  languages.\<close>

lemma checkLanguage_resolver [simp]:
  "checkLanguage (env\<lparr>resolveQueries := r\<rparr>) = checkLanguage env"
  by (simp add: fun_eq_iff checkLanguage_def cong: option.case_cong)

lemma addParsedLanguage_resolver [simp]:
  "addParsedLanguage (env\<lparr>resolveQueries := r\<rparr>) = addParsedLanguage env"
  by (simp add: fun_eq_iff addParsedLanguage_def cong: option.case_cong)

lemma getLanguages_resolver [simp]:
  "getLanguages (env\<lparr>resolveQueries := r\<rparr>) = getLanguages env"
  by (simp add: fun_eq_iff getLanguages_def getLanguagesInRepo_def Let_def cong: if_cong)

lemma getLocalConfig_resolver [simp]:
  "getLocalConfig (env\<lparr>resolveQueries := r\<rparr>) = getLocalConfig env"
  by (simp add: fun_eq_iff getLocalConfig_def cong: if_cong)








end
